theory Spec2Isabelle
  imports Complex_Main
begin

section \<open>Intercompany chaincode: data model\<close>

text \<open>
  The chaincode of \<^verbatim>\<open>intercompanyA.go\<close> keeps two kinds of JSON documents in the world
  state, licenses and intercompany accounts, and two index lists. Both structs have string
  fields only; amounts are kept as text and parsed on use.
\<close>

type_synonym key = string

record License =
  LicenseKey :: string
  LicensePartNo :: string
  BaseEntityCode :: string
  Quantity :: string
  LicensePrice :: string
  SupportFee :: string
  LicenseStartDate :: string
  LicenseEndDate :: string
  SupportStartDate :: string
  SupportEndDate :: string
  Currency :: string
  LastSettlementDate :: string

record IntercompanyAccount =
  AccountKey :: string
  DueToEntityCode :: string
  DueFromEntityCode :: string
  DueToEntityName :: string
  DueFromEntityName :: string
  Currency :: string
  Period :: string
  OpeningBalance :: string
  Activity :: string
  PeriodToDateBalance :: string
  AccountNo :: string
  AccountName :: string

definition LicenseIndexStr :: key where
  "LicenseIndexStr = ''_licenseindex''"

definition AccountIndexStr :: key where
  "AccountIndexStr = ''_accountindex''"

text \<open>The zero values \<^verbatim>\<open>License{}\<close> and \<^verbatim>\<open>IntercompanyAccount{}\<close>.\<close>

definition License_zero :: License where
  "License_zero = \<lparr>LicenseKey = [], LicensePartNo = [], BaseEntityCode = [], Quantity = [],
     LicensePrice = [], SupportFee = [], LicenseStartDate = [], LicenseEndDate = [],
     SupportStartDate = [], SupportEndDate = [], License.Currency = [],
     LastSettlementDate = []\<rparr>"

definition IntercompanyAccount_zero :: IntercompanyAccount where
  "IntercompanyAccount_zero = \<lparr>AccountKey = [], DueToEntityCode = [], DueFromEntityCode = [],
     DueToEntityName = [], DueFromEntityName = [], Currency = [], Period = [],
     OpeningBalance = [], Activity = [], PeriodToDateBalance = [], AccountNo = [],
     AccountName = []\<rparr>"

subsection \<open>Stored bytes\<close>

text \<open>
  The values under the keys are JSON texts. The chaincode writes four shapes: a license
  object, an account object, a list of strings (\<^verbatim>\<open>null\<close> for the nil slice that
  \<^verbatim>\<open>Init\<close> marshals) and the decimal number under \<^verbatim>\<open>test_key\<close>. The model keeps the
  decoded shape; it covers arguments without quotes, backslashes and control characters,
  for which the hand-built JSON of \<^verbatim>\<open>create_account\<close> and \<^verbatim>\<open>create_license\<close> is the
  object that \<^verbatim>\<open>json.Marshal\<close> would produce.
\<close>

datatype json =
  Null
  | Arr "string list"
  | LicenseObj License
  | AccountObj IntercompanyAccount
  | Other string

text \<open>
  \<^verbatim>\<open>json.Unmarshal\<close> into a struct. Its error is dropped at every call site, and the
  struct keeps its zero value when the bytes are absent or not an object. An object of the
  other struct fills the one field name the two structs share, \<^verbatim>\<open>currency\<close>.
\<close>

fun Unmarshal_License :: "json option \<Rightarrow> License" where
  "Unmarshal_License (Some (LicenseObj l)) = l"
| "Unmarshal_License (Some (AccountObj a)) =
     License_zero\<lparr>License.Currency := IntercompanyAccount.Currency a\<rparr>"
| "Unmarshal_License _ = License_zero"

fun Unmarshal_Account :: "json option \<Rightarrow> IntercompanyAccount" where
  "Unmarshal_Account (Some (AccountObj a)) = a"
| "Unmarshal_Account (Some (LicenseObj l)) =
     IntercompanyAccount_zero\<lparr>IntercompanyAccount.Currency := License.Currency l\<rparr>"
| "Unmarshal_Account _ = IntercompanyAccount_zero"

text \<open>
  A Go slice of strings is \<open>None\<close> when nil. Unmarshalling into a nil slice leaves it nil
  unless the bytes are a JSON array; marshalling a nil slice gives \<^verbatim>\<open>null\<close>.
\<close>

fun Unmarshal_Index :: "json option \<Rightarrow> string list option" where
  "Unmarshal_Index (Some (Arr xs)) = Some xs"
| "Unmarshal_Index _ = None"

fun Marshal_Index :: "string list option \<Rightarrow> json" where
  "Marshal_Index None = Null"
| "Marshal_Index (Some xs) = Arr xs"

text \<open>\<^verbatim>\<open>append(index, k)\<close>: a nil slice counts as empty and the result is never nil.\<close>

fun append_go :: "string list option \<Rightarrow> string \<Rightarrow> string list option" where
  "append_go None k = Some [k]"
| "append_go (Some xs) k = Some (xs @ [k])"

subsection \<open>The stub\<close>

text \<open>
  \<^verbatim>\<open>shim.ChaincodeStubInterface\<close> as the chaincode uses it: a map from keys to bytes
  with \<^verbatim>\<open>GetState\<close>, \<^verbatim>\<open>PutState\<close> and \<^verbatim>\<open>DelState\<close>, each of which may report an
  error. Which calls fail is given by three predicates on the key.
\<close>

record stub =
  State :: "key \<rightharpoonup> json"
  GetErr :: "key \<Rightarrow> bool"
  PutErr :: "key \<Rightarrow> bool"
  DelErr :: "key \<Rightarrow> bool"

definition GetState :: "stub \<Rightarrow> key \<Rightarrow> json option option" where
  "GetState st k = (if GetErr st k then None else Some (State st k))"

definition PutState :: "stub \<Rightarrow> key \<Rightarrow> json \<Rightarrow> bool \<times> stub" where
  "PutState st k v =
     (if PutErr st k then (False, st) else (True, st\<lparr>State := (State st)(k \<mapsto> v)\<rparr>))"

definition DelState :: "stub \<Rightarrow> key \<Rightarrow> bool \<times> stub" where
  "DelState st k =
     (if DelErr st k then (False, st) else (True, st\<lparr>State := (State st)(k := None)\<rparr>))"

text \<open>
  A \<^verbatim>\<open>pb.Response\<close> is a success or an error with its message. A run-time panic (a
  slice or an index out of range) is a third outcome; it unwinds through every caller.
\<close>

datatype Response = Success | Error string | Panic

subsection \<open>Numbers and time\<close>

text \<open>
  Amounts are \<^verbatim>\<open>float64\<close>. The model is polymorphic in the type \<open>'f\<close> of amounts, with
  the arithmetic written \<open>+\<close>, \<open>-\<close>, \<open>*\<close>, \<open>div\<close> and \<open><\<close> of the syntactic classes, which
  carry no laws. \<^verbatim>\<open>strconv.ParseFloat\<close> (value and success flag),
  \<^verbatim>\<open>strconv.FormatFloat(x, 'E', -1, 64)\<close>, the conversion of an integer to an amount and
  \<^verbatim>\<open>time.Now().Format("01-02-2006")\<close> are the fields of a runtime record.
\<close>

record 'f runtime =
  ParseFloat :: "string \<Rightarrow> 'f \<times> bool"
  FormatFloat :: "'f \<Rightarrow> string"
  Float64 :: "int \<Rightarrow> 'f"
  Now :: string

subsection \<open>\<^verbatim>\<open>strconv.ParseInt(s, 10, 64)\<close> and string slices\<close>

definition isDigit :: "char \<Rightarrow> bool" where
  "isDigit c = (48 \<le> (of_char c :: nat) \<and> (of_char c :: nat) \<le> 57)"

definition digitVal :: "char \<Rightarrow> nat" where
  "digitVal c = of_char c - 48"

definition digitsVal :: "string \<Rightarrow> nat" where
  "digitsVal s = foldl (\<lambda>acc c. 10 * acc + digitVal c) 0 s"

text \<open>
  An optional sign, then at least one decimal digit and nothing else. On a syntax error
  the value is 0; out of the 64-bit range it is the nearest bound. The flag is \<open>True\<close> when
  \<^verbatim>\<open>err == nil\<close>.
\<close>

definition ParseInt :: "string \<Rightarrow> int \<times> bool" where
  "ParseInt s =
     (let (neg, ds) =
        (case s of
           [] \<Rightarrow> (False, [])
         | c # r \<Rightarrow> if c = CHR ''-'' then (True, r)
                    else if c = CHR ''+'' then (False, r) else (False, s))
      in if ds = [] \<or> \<not> list_all isDigit ds then (0, False)
         else let v = (if neg then - int (digitsVal ds) else int (digitsVal ds))
              in if v > 2 ^ 63 - 1 then (2 ^ 63 - 1, False)
                 else if v < - (2 ^ 63) then (- (2 ^ 63), False)
                 else (v, True))"

text \<open>\<^verbatim>\<open>s[lo:hi]\<close> panics unless \<open>lo \<le> hi \<le> len(s)\<close>; \<open>None\<close> is the panic.\<close>

definition slice :: "string \<Rightarrow> nat \<Rightarrow> nat \<Rightarrow> string option" where
  "slice s lo hi = (if lo \<le> hi \<and> hi \<le> length s then Some (take (hi - lo) (drop lo s)) else None)"

section \<open>monthDiff\<close>

text \<open>
  \<^verbatim>\<open>
  func (t *SimpleChaincode) monthDiff(string dateA, string dateB) int {
      var int res
      monthDateA := strconv.ParseInt(dateA[0,2],10,64)
      monthDateB := strconv.ParseInt(dateB[0,2],10,64)
      yearDateA := strconv.ParseInt(dateA[6,10],10,64)
      yearDateB := strconv.ParseInt(dateB[6,10],10,64)
      res = (yearDateB - yearDateA) * 12 + monthDateB - monthDateA
  }
  \<close>
  The source writes the slices with a comma and ends without a \<^verbatim>\<open>return\<close>; they are read
  as \<^verbatim>\<open>dateA[0:2]\<close> and as returning \<^verbatim>\<open>res\<close>. The errors of \<^verbatim>\<open>ParseInt\<close> are dropped.
\<close>

definition monthDiff :: "string \<Rightarrow> string \<Rightarrow> int option" where
  "monthDiff dateA dateB =
     (case slice dateA 0 2 of None \<Rightarrow> None | Some ma \<Rightarrow>
     (case slice dateB 0 2 of None \<Rightarrow> None | Some mb \<Rightarrow>
     (case slice dateA 6 10 of None \<Rightarrow> None | Some ya \<Rightarrow>
     (case slice dateB 6 10 of None \<Rightarrow> None | Some yb \<Rightarrow>
        (let monthDateA = fst (ParseInt ma);
             monthDateB = fst (ParseInt mb);
             yearDateA = fst (ParseInt ya);
             yearDateB = fst (ParseInt yb)
         in Some ((yearDateB - yearDateA) * 12 + monthDateB - monthDateA))))))"

text \<open>\<^verbatim>\<open>strconv.FormatInt(n, 10)\<close> and \<^verbatim>\<open>strconv.Itoa\<close>.\<close>

definition digitChar :: "nat \<Rightarrow> char" where
  "digitChar d = char_of (48 + d)"

fun natDigits :: "nat \<Rightarrow> string" where
  "natDigits n = (if n < 10 then [digitChar n] else natDigits (n div 10) @ [digitChar (n mod 10)])"

definition FormatInt :: "int \<Rightarrow> string" where
  "FormatInt n = (if n < 0 then CHR ''-'' # natDigits (nat (- n)) else natDigits (nat n))"

section \<open>The operations of the chaincode\<close>

text \<open>
  Every operation takes the runtime, the stub and the argument list, and returns the
  response with the stub after the writes that were issued. The message of an error that
  the stub itself reports (\<^verbatim>\<open>err.Error()\<close>) is not known to the chaincode and is written
  \<open>StubError\<close>.
\<close>

definition StubError :: string where
  "StubError = ''err.Error()''"

subsection \<open>Init\<close>

definition Init :: "stub \<Rightarrow> string list \<Rightarrow> Response \<times> stub" where
  "Init st args =
     (if length args \<noteq> 1
      then (Error ''Incorrect number of arguments. Expecting a single integer'', st)
      else let (Aval, ok) = ParseInt (args ! 0) in
        if \<not> ok then (Error ''Expecting an integer argument to Init() for instantiate'', st)
        else let (ok1, st1) = PutState st ''test_key'' (Other (FormatInt Aval)) in
          if \<not> ok1 then (Error StubError, st1)
          else let (ok2, st2) = PutState st1 LicenseIndexStr (Marshal_Index None) in
            if \<not> ok2 then (Error StubError, st2)
            else let (ok3, st3) = PutState st2 AccountIndexStr (Marshal_Index None) in
              if \<not> ok3 then (Error StubError, st3)
              else (Success, st3))"

subsection \<open>create_account\<close>

text \<open>
  The ten arguments are the two entity codes, the two entity names, currency, period,
  opening balance, activity, account number and account name. The account is written
  under \<^verbatim>\<open>dueTo_dueFrom_accountNo\<close> and the key is appended to the account index, with
  no test whether it is there already. The result of the last \<^verbatim>\<open>PutState\<close> is assigned
  and never read.
\<close>

definition create_account ::
  "('f::plus) runtime \<Rightarrow> stub \<Rightarrow> string list \<Rightarrow> Response \<times> stub" where
  "create_account R st args =
     (if length args \<noteq> 10 then (Error ''Incorrect number of arguments. Expecting 10'', st)
      else let dueToEntityCode = args ! 0;
               dueFromEntityCode = args ! 1;
               accountNo = args ! 8;
               accountKey = dueToEntityCode @ ''_'' @ dueFromEntityCode @ ''_'' @ accountNo;
               (openingBalance, ok6) = ParseFloat R (args ! 6) in
        if \<not> ok6 then (Error ''7th argument must be a numeric string'', st)
        else let (activity, ok7) = ParseFloat R (args ! 7) in
          if \<not> ok7 then (Error ''8th argument must be a numeric string'', st)
          else let periodToDateBalance = openingBalance + activity in
            (case GetState st accountKey of
               None \<Rightarrow> (Error ''Failed to get account key'', st)
             | Some accountAsBytes \<Rightarrow>
                 let res = Unmarshal_Account accountAsBytes in
                 if AccountKey res = accountKey then (Error ''This account arleady exists'', st)
                 else let str = AccountObj
                        \<lparr>AccountKey = accountKey,
                         DueToEntityCode = dueToEntityCode,
                         DueFromEntityCode = dueFromEntityCode,
                         DueToEntityName = args ! 2,
                         DueFromEntityName = args ! 3,
                         Currency = args ! 4,
                         Period = args ! 5,
                         OpeningBalance = FormatFloat R openingBalance,
                         Activity = FormatFloat R activity,
                         PeriodToDateBalance = FormatFloat R periodToDateBalance,
                         AccountNo = accountNo,
                         AccountName = args ! 9\<rparr>;
                          (ok, st1) = PutState st accountKey str in
                   if \<not> ok then (Error StubError, st1)
                   else (case GetState st1 AccountIndexStr of
                           None \<Rightarrow> (Error ''Failed to get user index'', st1)
                         | Some accountsAsBytes \<Rightarrow>
                             let accountIndex = append_go (Unmarshal_Index accountsAsBytes) accountKey;
                                 (ok', st2) = PutState st1 AccountIndexStr (Marshal_Index accountIndex)
                             in (Success, st2))))"

subsection \<open>create_license\<close>

definition create_license ::
  "'f runtime \<Rightarrow> stub \<Rightarrow> string list \<Rightarrow> Response \<times> stub" where
  "create_license R st args =
     (if length args \<noteq> 11 then (Error ''Incorrect number of arguments. Expecting 11'', st)
      else let licenseKey = args ! 0 @ ''_'' @ args ! 1;
               (quantity, ok2) = ParseFloat R (args ! 2) in
        if \<not> ok2 then (Error ''3rd argument must be a numeric string'', st)
        else let (licensePrice, ok3) = ParseFloat R (args ! 3) in
          if \<not> ok3 then (Error ''4th argument must be a numeric string'', st)
          else let (supportFee, ok4) = ParseFloat R (args ! 4) in
            if \<not> ok4 then (Error ''5th argument must be a numeric string'', st)
            else (case GetState st licenseKey of
               None \<Rightarrow> (Error ''Failed to get license'', st)
             | Some licenseAsBytes \<Rightarrow>
                 let res = Unmarshal_License licenseAsBytes in
                 if LicenseKey res = licenseKey then (Error ''This license arleady exists'', st)
                 else let str = LicenseObj
                        \<lparr>LicenseKey = licenseKey,
                         LicensePartNo = args ! 0,
                         BaseEntityCode = args ! 1,
                         Quantity = FormatFloat R quantity,
                         LicensePrice = FormatFloat R licensePrice,
                         SupportFee = FormatFloat R supportFee,
                         LicenseStartDate = args ! 5,
                         LicenseEndDate = args ! 6,
                         SupportStartDate = args ! 7,
                         SupportEndDate = args ! 8,
                         License.Currency = args ! 9,
                         LastSettlementDate = args ! 10\<rparr>;
                          (ok, st1) = PutState st licenseKey str in
                   if \<not> ok then (Error StubError, st1)
                   else (case GetState st1 LicenseIndexStr of
                           None \<Rightarrow> (Error ''Failed to get license index'', st1)
                         | Some licensesAsBytes \<Rightarrow>
                             let licenseIndex = append_go (Unmarshal_Index licensesAsBytes) licenseKey;
                                 (ok', st2) = PutState st1 LicenseIndexStr (Marshal_Index licenseIndex)
                             in (Success, st2))))"

subsection \<open>addActivityToAccount\<close>

text \<open>
  \<^verbatim>\<open>
  account, err := stub.GetState(args[0])
  ...
  amount := strconv.ParseFloat(args[1],64)
  activity := strconv.ParseFloat(resAccount.Activity,64)
  ...
  accountAsBytes, _ := json.Marshal(resAccount)
  err = stub.PutState(args[1], accountAsBytes)
  \<close>
  The account is read under \<^verbatim>\<open>args[0]\<close> and written under \<^verbatim>\<open>args[1]\<close>, the amount. The
  three calls of \<^verbatim>\<open>ParseFloat\<close> bind one variable each: the value is taken and the error
  is dropped.
\<close>

definition addActivityToAccount ::
  "('f::plus) runtime \<Rightarrow> stub \<Rightarrow> string list \<Rightarrow> Response \<times> stub" where
  "addActivityToAccount R st args =
     (if length args < 2 then (Error ''Incorrect number of arguments. Expecting 2'', st)
      else (case GetState st (args ! 0) of
              None \<Rightarrow> (Error ''Failed to get the account'', st)
            | Some account \<Rightarrow>
                let resAccount = Unmarshal_Account account;
                    amount = fst (ParseFloat R (args ! 1));
                    activity = fst (ParseFloat R (Activity resAccount));
                    newActivity = activity + amount;
                    newActivityStr = FormatFloat R newActivity;
                    resAccount1 = resAccount\<lparr>Activity := newActivityStr\<rparr>;
                    periodToDateBalance = fst (ParseFloat R (PeriodToDateBalance resAccount1));
                    newPeriodToDateBalance = periodToDateBalance + amount;
                    newPeriodToDateBalanceStr = FormatFloat R newPeriodToDateBalance;
                    resAccount2 = resAccount1\<lparr>PeriodToDateBalance := newPeriodToDateBalanceStr\<rparr>;
                    (ok, st1) = PutState st (args ! 1) (AccountObj resAccount2)
                in if \<not> ok then (Error StubError, st1) else (Success, st1)))"

subsection \<open>settle_bill\<close>

text \<open>
  \<^verbatim>\<open>supportCharge := supportFee * quantity * months / 12\<close> multiplies two amounts by the
  integer \<^verbatim>\<open>months\<close>; the integer and the constant are converted to amounts, and the
  expression is the function \<open>support_charge\<close>. The argument list written
  \<^verbatim>\<open>args1 := [args[1], supportChargeStr]\<close> is read as the slice of the two strings. The
  last settlement date, the quantity and the fee come from the license read under
  \<^verbatim>\<open>args[0]\<close>, the parse errors are dropped, the response of \<^verbatim>\<open>addActivityToAccount\<close> is
  dropped, and the license is written back under \<^verbatim>\<open>args[0]\<close> with today as its last
  settlement date.
\<close>

definition support_charge :: "('f::{times,divide}) runtime \<Rightarrow> 'f \<Rightarrow> 'f \<Rightarrow> int \<Rightarrow> 'f" where
  "support_charge R supportFee quantity months =
     supportFee * quantity * Float64 R months div Float64 R 12"

definition settle_bill ::
  "('f::{plus,times,divide}) runtime \<Rightarrow> stub \<Rightarrow> string list \<Rightarrow> Response \<times> stub" where
  "settle_bill R st args =
     (if length args < 2 then (Error ''Incorrect number of arguments. Expecting 2'', st)
      else let currentDate = Now R in
        (case GetState st (args ! 0) of
           None \<Rightarrow> (Error ''Failed to get the license'', st)
         | Some license \<Rightarrow>
             let resLicense = Unmarshal_License license;
                 lastSettlementDate = LastSettlementDate resLicense in
             (case monthDiff lastSettlementDate currentDate of
                None \<Rightarrow> (Panic, st)
              | Some months \<Rightarrow>
                  let quantity = fst (ParseFloat R (Quantity resLicense));
                      supportFee = fst (ParseFloat R (SupportFee resLicense));
                      supportCharge = support_charge R supportFee quantity months;
                      supportChargeStr = FormatFloat R supportCharge;
                      args1 = [args ! 1, supportChargeStr];
                      (r1, st1) = addActivityToAccount R st args1;
                      resLicense1 = resLicense\<lparr>LastSettlementDate := currentDate\<rparr>;
                      (ok, st2) = PutState st1 (args ! 0) (LicenseObj resLicense1)
                  in if \<not> ok then (Error StubError, st2) else (Success, st2))))"

subsection \<open>next_period\<close>




subsection \<open>delete_license\<close>

text \<open>
  The loop over the index removes the first entry equal to the key and stops. A nil slice
  has no entries and stays nil.
\<close>

fun remove_first :: "string \<Rightarrow> string list \<Rightarrow> string list" where
  "remove_first k [] = []"
| "remove_first k (val # rest) = (if val = k then rest else val # remove_first k rest)"

definition delete_license :: "stub \<Rightarrow> string list \<Rightarrow> Response \<times> stub" where
  "delete_license st args =
     (if length args \<noteq> 1 then (Error ''Incorrect number of arguments. Expecting 1'', st)
      else let licenseKey = args ! 0;
               (ok, st1) = DelState st licenseKey in
        if \<not> ok then (Error ''Failed to delete state'', st1)
        else (case GetState st1 LicenseIndexStr of
                None \<Rightarrow> (Error ''Failed to get license index'', st1)
              | Some licensesAsBytes \<Rightarrow>
                  let licenseIndex = map_option (remove_first licenseKey) (Unmarshal_Index licensesAsBytes);
                      (ok', st2) = PutState st1 LicenseIndexStr (Marshal_Index licenseIndex)
                  in (Success, st2)))"

subsection \<open>transfer_license\<close>

text \<open>
  The seven arguments are the key of the source license, the target entity code, the
  quantity, the license accounts of source and target and the support accounts of source
  and target. All checks come before the first write. The responses of the operations
  called on the way (\<^verbatim>\<open>settle_bill\<close>, \<^verbatim>\<open>create_license\<close>,
  \<^verbatim>\<open>addActivityToAccount\<close>, \<^verbatim>\<open>delete_license\<close>) are dropped; only a panic of
  \<^verbatim>\<open>settle_bill\<close> ends the call. The error of parsing the stored quantity is overwritten
  by that of parsing \<^verbatim>\<open>args[2]\<close>, which is the one tested. \<^verbatim>\<open>==\<close> on amounts is
  equality of the values. The field written \<^verbatim>\<open>resLicenseA.licensePartNo\<close> is
  \<^verbatim>\<open>LicensePartNo\<close>, and
  \<^verbatim>\<open>licenseCharge := transferedQuantity * months * licensePrice / 60\<close> converts the
  integer and the constant to amounts.

  The branch on the target license, \<^verbatim>\<open>if resLicenseB.LicenseKey == newLicenseKey\<close>: the
  result is \<open>Some r\<close> when the branch returns \<open>r\<close>, and \<open>None\<close> when the call goes on.
\<close>

definition transfer_target ::
  "('f::{plus,times,divide}) runtime \<Rightarrow> stub \<Rightarrow> string list \<Rightarrow> License \<Rightarrow> License \<Rightarrow> key \<Rightarrow>
     'f \<Rightarrow> string \<Rightarrow> string \<Rightarrow> string \<Rightarrow> Response option \<times> stub" where
  "transfer_target R st args resLicenseA resLicenseB newLicenseKey transferedQuantity
       currentDate licenseChargeStr negLicenseChargeStr =
     (if LicenseKey resLicenseB = newLicenseKey
      then let (r0, st0) = settle_bill R st [newLicenseKey, args ! 6] in
        if r0 = Panic then (Some Panic, st0)
        else let previousQuantity = fst (ParseFloat R (Quantity resLicenseB));
                 resLicenseB1 = resLicenseB\<lparr>Quantity :=
                    FormatFloat R (previousQuantity + transferedQuantity)\<rparr>;
                 resLicenseB2 = resLicenseB1\<lparr>LastSettlementDate := currentDate\<rparr>;
                 (ok, st1) = PutState st0 newLicenseKey (LicenseObj resLicenseB2) in
          if \<not> ok then (Some (Error StubError), st1)
          else let (r2, st2) = addActivityToAccount R st1 [args ! 3, licenseChargeStr];
                   (r3, st3) = addActivityToAccount R st2 [args ! 4, negLicenseChargeStr]
               in (None, st3)
      else let args2 = [LicensePartNo resLicenseA, args ! 1, args ! 2,
                        LicensePrice resLicenseA, SupportFee resLicenseA,
                        LicenseStartDate resLicenseA, LicenseEndDate resLicenseA,
                        SupportStartDate resLicenseA, SupportEndDate resLicenseA,
                        License.Currency resLicenseA, currentDate];
               (r1, st1) = create_license R st args2;
               (r2, st2) = addActivityToAccount R st1 [args ! 3, licenseChargeStr];
               (r3, st3) = addActivityToAccount R st2 [args ! 4, negLicenseChargeStr]
           in (None, st3))"

text \<open>The branch on the source license, \<^verbatim>\<open>if (originalQuantity == transferedQuantity)\<close>.\<close>

definition transfer_source ::
  "('f::{plus,minus,times,divide}) runtime \<Rightarrow> stub \<Rightarrow> string list \<Rightarrow> License \<Rightarrow>
     'f \<Rightarrow> 'f \<Rightarrow> string \<Rightarrow> Response \<times> stub" where
  "transfer_source R st args resLicenseA originalQuantity transferedQuantity currentDate =
     (if originalQuantity = transferedQuantity
      then let (r1, st1) = settle_bill R st [args ! 0, args ! 5] in
        if r1 = Panic then (Panic, st1)
        else let (r2, st2) = delete_license st1 [args ! 0] in (Success, st2)
      else let (r1, st1) = settle_bill R st [args ! 0, args ! 5] in
        if r1 = Panic then (Panic, st1)
        else let resLicenseA1 = resLicenseA\<lparr>Quantity :=
                    FormatFloat R (originalQuantity - transferedQuantity)\<rparr>;
                 resLicenseA2 = resLicenseA1\<lparr>LastSettlementDate := currentDate\<rparr>;
                 (ok, st2) = PutState st1 (args ! 0) (LicenseObj resLicenseA2)
             in if \<not> ok then (Error StubError, st2) else (Success, st2))"

definition transfer_license ::
  "('f::{plus,minus,uminus,times,divide,ord}) runtime \<Rightarrow> stub \<Rightarrow> string list \<Rightarrow> Response \<times> stub" where
  "transfer_license R st args =
     (if length args \<noteq> 7 then (Error ''Incorrect number of arguments. Expecting 7'', st)
      else (case GetState st (args ! 0) of
              None \<Rightarrow> (Error ''Failed to get the license'', st)
            | Some licenseAAsBytes \<Rightarrow>
                let resLicenseA = Unmarshal_License licenseAAsBytes;
                    licensePartNo = LicensePartNo resLicenseA;
                    originalQuantity = fst (ParseFloat R (Quantity resLicenseA));
                    licenseStartDate = LicenseStartDate resLicenseA;
                    currentDate = Now R in
                (case monthDiff licenseStartDate currentDate of
                   None \<Rightarrow> (Panic, st)
                 | Some months \<Rightarrow>
                     let licensePrice = fst (ParseFloat R (LicensePrice resLicenseA));
                         (transferedQuantity, ok2) = ParseFloat R (args ! 2);
                         licenseCharge =
                           transferedQuantity * Float64 R months * licensePrice div Float64 R 60;
                         negLicenseCharge = - licenseCharge;
                         licenseChargeStr = FormatFloat R licenseCharge;
                         negLicenseChargeStr = FormatFloat R negLicenseCharge in
                     if \<not> ok2 then (Error ''3rd argument must be a numeric string'', st)
                     else if originalQuantity < transferedQuantity
                     then (Error ''No enough license to transfer'', st)
                     else let newLicenseKey = licensePartNo @ ''_'' @ args ! 1 in
                       (case GetState st newLicenseKey of
                          None \<Rightarrow> (Error ''Failed to get license'', st)
                        | Some licenseBAsBytes \<Rightarrow>
                            let resLicenseB = Unmarshal_License licenseBAsBytes;
                                (early, st1) = transfer_target R st args resLicenseA resLicenseB
                                   newLicenseKey transferedQuantity currentDate
                                   licenseChargeStr negLicenseChargeStr in
                            (case early of
                               Some r \<Rightarrow> (r, st1)
                             | None \<Rightarrow> transfer_source R st1 args resLicenseA
                                          originalQuantity transferedQuantity currentDate)))))"

section \<open>Dates and a decimal runtime\<close>

text \<open>A date in the form \<^verbatim>\<open>MM-DD-YYYY\<close>, from month and year numbers and a day text.\<close>

definition pad2 :: "nat \<Rightarrow> string" where
  "pad2 n = [digitChar (n div 10 mod 10), digitChar (n mod 10)]"

definition pad4 :: "nat \<Rightarrow> string" where
  "pad4 n = pad2 (n div 100) @ pad2 (n mod 100)"

definition date_MM_DD_YYYY :: "nat \<Rightarrow> string \<Rightarrow> nat \<Rightarrow> string" where
  "date_MM_DD_YYYY m dd y = pad2 m @ ''-'' @ dd @ ''-'' @ pad4 y"

text \<open>
  A runtime to run the operations on: amounts are rationals,
  \<open>ParseFloat_dec\<close> reads a decimal text (sign, digits, fraction, exponent) and
  \<open>FormatFloat_dec\<close> writes the format \<^verbatim>\<open>'E'\<close> with the fewest digits, as
  \<^verbatim>\<open>strconv\<close> does for every \<^verbatim>\<open>float64\<close> that is a short decimal. A rational with no
  finite decimal expansion is cut after twenty places; none is used below.
\<close>

definition ParseFloat_dec :: "string \<Rightarrow> rat \<times> bool" where
  "ParseFloat_dec s =
     (let (neg, r) =
        (case s of
           [] \<Rightarrow> (False, [])
         | c # t \<Rightarrow> if c = CHR ''-'' then (True, t)
                    else if c = CHR ''+'' then (False, t) else (False, s));
          ip = takeWhile isDigit r;
          r1 = dropWhile isDigit r;
          fp = (case r1 of c # t \<Rightarrow> if c = CHR ''.'' then takeWhile isDigit t else [] | [] \<Rightarrow> []);
          r2 = (case r1 of c # t \<Rightarrow> if c = CHR ''.'' then dropWhile isDigit t else r1 | [] \<Rightarrow> []);
          (e, okE) = (case r2 of
                        [] \<Rightarrow> (0, True)
                      | c # t \<Rightarrow> if c = CHR ''E'' \<or> c = CHR ''e'' then ParseInt t else (0, False))
      in if (ip = [] \<and> fp = []) \<or> \<not> okE then (0, False)
         else let m = of_nat (digitsVal (ip @ fp)) :: rat;
                  k = e - int (length fp);
                  v = (if k < 0 then m / 10 ^ nat (- k) else m * 10 ^ nat k)
              in (if neg then - v else v, True))"

definition FormatFloat_dec :: "rat \<Rightarrow> string" where
  "FormatFloat_dec x =
     (let (p, q) = quotient_of x;
          s = (case find (\<lambda>s. (10 :: int) ^ s mod q = 0) [0 ..< 41] of Some s \<Rightarrow> s | None \<Rightarrow> 20);
          ds = natDigits (nat (\<bar>p\<bar> * 10 ^ s div q));
          e = int (length ds) - 1 - int s
      in case rev (dropWhile (\<lambda>c. c = CHR ''0'') (rev ds)) of
           [] \<Rightarrow> ''0E+00''
         | d # rest \<Rightarrow>
             (if x < 0 then ''-'' else []) @ [d] @ (if rest = [] then [] else CHR ''.'' # rest)
             @ ''E'' @ (if e < 0 then ''-'' else ''+'')
             @ (if \<bar>e\<bar> < 10 then ''0'' else []) @ natDigits (nat \<bar>e\<bar>))"

definition decimal_runtime :: "string \<Rightarrow> rat runtime" where
  "decimal_runtime today =
     \<lparr>ParseFloat = ParseFloat_dec, FormatFloat = FormatFloat_dec, Float64 = of_int, Now = today\<rparr>"


section \<open>A small ledger\<close>

text \<open>
  A stub that never fails, holding the account and the license of the scenario: account
  \<^verbatim>\<open>A_B_1\<close> with opening balance 1000 in period \<^verbatim>\<open>Jan-2024\<close>, and license
  \<^verbatim>\<open>P1_E1\<close> with quantity 10, price 120 and support fee 12, last settled on
  1 January 2024. The runtime \<open>june\<close> has 1 June 2024 as today.
\<close>

definition empty_stub :: stub where
  "empty_stub = \<lparr>State = Map.empty, GetErr = (\<lambda>k. False), PutErr = (\<lambda>k. False),
     DelErr = (\<lambda>k. False)\<rparr>"

definition account_args :: "string list" where
  "account_args = [''A'', ''B'', ''Alpha'', ''Beta'', ''USD'', ''Jan-2024'', ''1000'', ''0'',
     ''1'', ''Cash'']"

definition license_args :: "string list" where
  "license_args = [''P1'', ''E1'', ''10'', ''120'', ''12'', ''01-01-2024'', ''12-31-2028'',
     ''01-01-2024'', ''12-31-2028'', ''USD'', ''01-01-2024'']"

definition sample_account :: IntercompanyAccount where
  "sample_account = \<lparr>AccountKey = ''A_B_1'', DueToEntityCode = ''A'', DueFromEntityCode = ''B'',
     DueToEntityName = ''Alpha'', DueFromEntityName = ''Beta'', Currency = ''USD'',
     Period = ''Jan-2024'', OpeningBalance = ''1E+03'', Activity = ''0E+00'',
     PeriodToDateBalance = ''1E+03'', AccountNo = ''1'', AccountName = ''Cash''\<rparr>"

definition sample_license :: License where
  "sample_license = \<lparr>LicenseKey = ''P1_E1'', LicensePartNo = ''P1'', BaseEntityCode = ''E1'',
     Quantity = ''1E+01'', LicensePrice = ''1.2E+02'', SupportFee = ''1.2E+01'',
     LicenseStartDate = ''01-01-2024'', LicenseEndDate = ''12-31-2028'',
     SupportStartDate = ''01-01-2024'', SupportEndDate = ''12-31-2028'',
     License.Currency = ''USD'', LastSettlementDate = ''01-01-2024''\<rparr>"

definition sample_stub :: stub where
  "sample_stub = empty_stub\<lparr>State :=
     [''test_key'' \<mapsto> Other ''1'',
      ''_licenseindex'' \<mapsto> Arr [''P1_E1''],
      ''_accountindex'' \<mapsto> Arr [''A_B_1''],
      ''A_B_1'' \<mapsto> AccountObj sample_account,
      ''P1_E1'' \<mapsto> LicenseObj sample_license]\<rparr>"

definition june :: "rat runtime" where
  "june = decimal_runtime ''06-01-2024''"

section \<open>Records that the operations build\<close>

text \<open>
  The account that \<^verbatim>\<open>addActivityToAccount\<close> marshals, the text of the charge that
  \<^verbatim>\<open>settle_bill\<close> passes on, and the account and the period label that
  \<^verbatim>\<open>next_period\<close> marshals, as functions of what was read.
\<close>

definition posted :: "('f::plus) runtime \<Rightarrow> IntercompanyAccount \<Rightarrow> 'f \<Rightarrow> IntercompanyAccount" where
  "posted R a amount =
     a\<lparr>Activity := FormatFloat R (fst (ParseFloat R (Activity a)) + amount),
       PeriodToDateBalance := FormatFloat R (fst (ParseFloat R (PeriodToDateBalance a)) + amount)\<rparr>"

definition settled :: "('f::{plus,times,divide}) runtime \<Rightarrow> License \<Rightarrow> int \<Rightarrow> string" where
  "settled R l m = FormatFloat R (support_charge R (fst (ParseFloat R (SupportFee l)))
      (fst (ParseFloat R (Quantity l))) m)"



section \<open>What the two create operations build\<close>

text \<open>The key and the record that \<^verbatim>\<open>create_account\<close> and \<^verbatim>\<open>create_license\<close> put.\<close>

definition account_key :: "string list \<Rightarrow> key" where
  "account_key args = args ! 0 @ ''_'' @ args ! 1 @ ''_'' @ args ! 8"

definition license_key :: "string list \<Rightarrow> key" where
  "license_key args = args ! 0 @ ''_'' @ args ! 1"

definition built_account :: "('f::plus) runtime \<Rightarrow> string list \<Rightarrow> IntercompanyAccount" where
  "built_account R args =
     \<lparr>AccountKey = account_key args,
      DueToEntityCode = args ! 0,
      DueFromEntityCode = args ! 1,
      DueToEntityName = args ! 2,
      DueFromEntityName = args ! 3,
      Currency = args ! 4,
      Period = args ! 5,
      OpeningBalance = FormatFloat R (fst (ParseFloat R (args ! 6))),
      Activity = FormatFloat R (fst (ParseFloat R (args ! 7))),
      PeriodToDateBalance = FormatFloat R (fst (ParseFloat R (args ! 6)) + fst (ParseFloat R (args ! 7))),
      AccountNo = args ! 8,
      AccountName = args ! 9\<rparr>"

definition built_license :: "'f runtime \<Rightarrow> string list \<Rightarrow> License" where
  "built_license R args =
     \<lparr>LicenseKey = license_key args,
      LicensePartNo = args ! 0,
      BaseEntityCode = args ! 1,
      Quantity = FormatFloat R (fst (ParseFloat R (args ! 2))),
      LicensePrice = FormatFloat R (fst (ParseFloat R (args ! 3))),
      SupportFee = FormatFloat R (fst (ParseFloat R (args ! 4))),
      LicenseStartDate = args ! 5,
      LicenseEndDate = args ! 6,
      SupportStartDate = args ! 7,
      SupportEndDate = args ! 8,
      License.Currency = args ! 9,
      LastSettlementDate = args ! 10\<rparr>"

text \<open>A stub on which reading either index fails.\<close>

definition index_unreadable :: stub where
  "index_unreadable = empty_stub\<lparr>GetErr := (\<lambda>k. k = AccountIndexStr \<or> k = LicenseIndexStr)\<rparr>"

text \<open>The runtime \<open>january\<close> has 15 January 2024 as today.\<close>

definition january :: "rat runtime" where
  "january = decimal_runtime ''01-15-2024''"

section \<open>Sequences of operations on one account\<close>




definition balanced :: "('f::plus) runtime \<Rightarrow> IntercompanyAccount \<Rightarrow> bool" where
  "balanced R a \<longleftrightarrow>
     fst (ParseFloat R (PeriodToDateBalance a))
       = fst (ParseFloat R (OpeningBalance a)) + fst (ParseFloat R (Activity a))"


section \<open>Bookkeeping for the transfer\<close>

text \<open>
  The key \<open>k\<close> is listed at most once in the license index; a stub differs from another
  only by license and account objects written; two stubs fail on the same calls. The
  arguments of a transfer of all ten licenses of \<^verbatim>\<open>P1_E1\<close> to the entity \<^verbatim>\<open>E2\<close>.
\<close>

definition listed_once :: "key \<Rightarrow> stub \<Rightarrow> bool" where
  "listed_once k st \<longleftrightarrow> (\<forall>xs. State st LicenseIndexStr = Some (Arr xs) \<longrightarrow> count_list xs k \<le> 1)"

definition writes_objects :: "stub \<Rightarrow> stub \<Rightarrow> bool" where
  "writes_objects st st' \<longleftrightarrow>
     GetErr st' = GetErr st \<and> PutErr st' = PutErr st \<and> DelErr st' = DelErr st
     \<and> (\<forall>x. State st' x = State st x \<or> (\<exists>a. State st' x = Some (AccountObj a))
             \<or> (\<exists>l. State st' x = Some (LicenseObj l)))"

definition same_errs :: "stub \<Rightarrow> stub \<Rightarrow> bool" where
  "same_errs st st' \<longleftrightarrow> GetErr st' = GetErr st \<and> PutErr st' = PutErr st \<and> DelErr st' = DelErr st"

definition transfer_args :: "string list" where
  "transfer_args = [''P1_E1'', ''E2'', ''10'', ''A_B_1'', ''A_B_2'', ''A_B_3'', ''A_B_4'']"

section \<open>Sequences of create and delete operations\<close>














text \<open>
  The initialized state, and the states after creating the account of the small ledger,
  deleting its key with \<^verbatim>\<open>delete_license\<close> and creating it again; likewise for the
  license.
\<close>

definition reset :: stub where
  "reset = snd (Init empty_stub [''1''])"

definition account_created :: stub where
  "account_created = snd (create_account june reset account_args)"



definition license_created :: stub where
  "license_created = snd (create_license june account_created license_args)"




section \<open>Properties\<close>

subsection \<open>Parsing the digits of a date\<close>

lemma digitVal_digitChar: "d < 10 \<Longrightarrow> digitVal (digitChar d) = d"
  by (simp add: digitVal_def digitChar_def)

lemma isDigit_digitChar: "d < 10 \<Longrightarrow> isDigit (digitChar d)"
  by (simp add: isDigit_def digitChar_def)

lemma isDigit_not_sign: "isDigit c \<Longrightarrow> c \<noteq> CHR ''-'' \<and> c \<noteq> CHR ''+''"
  by (auto simp: isDigit_def)

lemma ParseInt_digits:
  assumes "ds \<noteq> []" and "list_all isDigit ds" and "digitsVal ds < 2 ^ 63"
  shows "ParseInt ds = (int (digitsVal ds), True)"
proof (cases ds)
  case Nil
  with assms show ?thesis by simp
next
  case (Cons c r)
  with assms have c: "c \<noteq> CHR ''-''" "c \<noteq> CHR ''+''"
    using isDigit_not_sign[of c] by simp_all
  have all: "list_all isDigit (c # r)" using assms Cons by simp
  have v: "int (digitsVal (c # r)) \<le> 2 ^ 63 - 1" using assms Cons by simp
  have nn: "\<not> int (digitsVal (c # r)) < - (2 ^ 63)" by simp
  show ?thesis
    unfolding ParseInt_def Cons using c all v nn
    by (simp add: Let_def)
qed

lemma two_digits: "m < 100 \<Longrightarrow> 10 * (m div 10 mod 10) + m mod 10 = (m::nat)"
proof -
  assume "m < 100"
  then have "m div 10 < 10" by simp
  then have "m div 10 mod 10 = m div 10" by simp
  then show ?thesis by simp
qed

lemma digitsVal_pad2: "m < 100 \<Longrightarrow> digitsVal (pad2 m) = m"
  using two_digits[of m] by (simp add: pad2_def digitsVal_def digitVal_digitChar)

lemma ParseInt_pad2: "m < 100 \<Longrightarrow> ParseInt (pad2 m) = (int m, True)"
proof -
  assume m: "m < 100"
  have "pad2 m \<noteq> []" by (simp add: pad2_def)
  moreover have "list_all isDigit (pad2 m)" by (simp add: pad2_def isDigit_digitChar)
  moreover have "digitsVal (pad2 m) < 2 ^ 63" using m by (simp add: digitsVal_pad2)
  ultimately show ?thesis using ParseInt_digits[of "pad2 m"] m by (simp add: digitsVal_pad2)
qed

lemma digitsVal_append:
  "digitsVal (xs @ ys) = foldl (\<lambda>acc c. 10 * acc + digitVal c) (digitsVal xs) ys"
  by (simp add: digitsVal_def)

lemma digitsVal_pad4: "y < 10000 \<Longrightarrow> digitsVal (pad4 y) = y"
proof -
  assume y: "y < 10000"
  have hi: "y div 100 < 100" and lo: "y mod 100 < 100" using y by simp_all
  have "digitsVal (pad4 y) = 100 * digitsVal (pad2 (y div 100)) + digitsVal (pad2 (y mod 100))"
    by (simp add: pad4_def digitsVal_append) (simp add: pad2_def digitsVal_def)
  then show ?thesis using hi lo by (simp add: digitsVal_pad2)
qed

lemma ParseInt_pad4: "y < 10000 \<Longrightarrow> ParseInt (pad4 y) = (int y, True)"
proof -
  assume y: "y < 10000"
  have "pad4 y \<noteq> []" by (simp add: pad4_def pad2_def)
  moreover have "list_all isDigit (pad4 y)" by (simp add: pad4_def pad2_def isDigit_digitChar)
  moreover have "digitsVal (pad4 y) < 2 ^ 63" using y by (simp add: digitsVal_pad4)
  ultimately show ?thesis using ParseInt_digits[of "pad4 y"] y by (simp add: digitsVal_pad4)
qed

lemma slice_month: "length dd = 2 \<Longrightarrow> slice (date_MM_DD_YYYY m dd y) 0 2 = Some (pad2 m)"
  by (simp add: slice_def date_MM_DD_YYYY_def pad2_def pad4_def)

lemma slice_year: "length dd = 2 \<Longrightarrow> slice (date_MM_DD_YYYY m dd y) 6 10 = Some (pad4 y)"
  by (simp add: slice_def date_MM_DD_YYYY_def pad2_def pad4_def)

lemma monthDiff_dates:
  assumes "mA < 100" "mB < 100" "yA < 10000" "yB < 10000" "length dA = 2" "length dB = 2"
  shows "monthDiff (date_MM_DD_YYYY mA dA yA) (date_MM_DD_YYYY mB dB yB)
           = Some ((int yB - int yA) * 12 + (int mB - int mA))"
  using assms by (simp add: monthDiff_def slice_month slice_year ParseInt_pad2 ParseInt_pad4)

subsection \<open>C8: the month difference of two dates\<close>

text \<open>
  C8. For dates in the form \<^verbatim>\<open>MM-DD-YYYY\<close> (two digits of month, any two bytes of day,
  four digits of year), \<open>monthDiff dateA dateB\<close> returns
  \<open>(yearB - yearA) * 12 + (monthB - monthA)\<close>: the day plays no part, and the result is
  negative when \<open>dateB\<close> is in an earlier month than \<open>dateA\<close>. From January to March 2024
  the difference is 2, from December 2023 to January 2024 it is 1, and from March 2024
  back to January 2023 it is -14.
\<close>

theorem monthDiff_formula:
  "(\<forall>mA dA yA mB dB yB.
      mA < 100 \<and> mB < 100 \<and> yA < 10000 \<and> yB < 10000 \<and> length dA = 2 \<and> length dB = 2 \<longrightarrow>
      monthDiff (date_MM_DD_YYYY mA dA yA) (date_MM_DD_YYYY mB dB yB)
        = Some ((int yB - int yA) * 12 + (int mB - int mA)))
   \<and> monthDiff ''01-01-2024'' ''03-01-2024'' = Some 2
   \<and> monthDiff ''12-01-2023'' ''01-01-2024'' = Some 1
   \<and> monthDiff ''03-15-2024'' ''01-01-2023'' = Some (- 14)"
proof (intro conjI allI impI)
  fix mA yA mB yB :: nat and dA dB :: string
  assume "mA < 100 \<and> mB < 100 \<and> yA < 10000 \<and> yB < 10000 \<and> length dA = 2 \<and> length dB = 2"
  then show "monthDiff (date_MM_DD_YYYY mA dA yA) (date_MM_DD_YYYY mB dB yB)
        = Some ((int yB - int yA) * 12 + (int mB - int mA))"
    by (simp add: monthDiff_dates)
next
  show "monthDiff ''01-01-2024'' ''03-01-2024'' = Some 2"
    by (simp add: monthDiff_def slice_def ParseInt_def isDigit_def digitsVal_def digitVal_def)
next
  show "monthDiff ''12-01-2023'' ''01-01-2024'' = Some 1"
    by (simp add: monthDiff_def slice_def ParseInt_def isDigit_def digitsVal_def digitVal_def)
next
  show "monthDiff ''03-15-2024'' ''01-01-2023'' = Some (- 14)"
    by (simp add: monthDiff_def slice_def ParseInt_def isDigit_def digitsVal_def digitVal_def)
qed

theorem monthDiff_formula_witness:
  "date_MM_DD_YYYY 12 ''31'' 2023 = ''12-31-2023''
   \<and> date_MM_DD_YYYY 2 ''01'' 2025 = ''02-01-2025''
   \<and> monthDiff ''12-31-2023'' ''02-01-2025'' = Some 14"
proof -
  have d1: "date_MM_DD_YYYY 12 ''31'' 2023 = ''12-31-2023''"
    by code_simp
  have d2: "date_MM_DD_YYYY 2 ''01'' 2025 = ''02-01-2025''"
    by code_simp
  have "monthDiff (date_MM_DD_YYYY 12 ''31'' 2023) (date_MM_DD_YYYY 2 ''01'' 2025)
          = Some ((int 2025 - int 2023) * 12 + (int 2 - int 12))"
    using monthDiff_formula by simp
  then show ?thesis using d1 d2 by simp
qed

subsection \<open>The operations, step by step\<close>

lemma addActivityToAccount_ok:
  assumes "\<not> GetErr st k" and "\<not> PutErr st amt"
  shows "addActivityToAccount R st [k, amt] =
           (Success, st\<lparr>State := (State st)(amt \<mapsto>
              AccountObj (posted R (Unmarshal_Account (State st k)) (fst (ParseFloat R amt))))\<rparr>)"
  using assms by (simp add: addActivityToAccount_def GetState_def PutState_def posted_def Let_def)

lemma addActivityToAccount_errs:
  "GetErr (snd (addActivityToAccount R st args)) = GetErr st"
  "PutErr (snd (addActivityToAccount R st args)) = PutErr st"
  "DelErr (snd (addActivityToAccount R st args)) = DelErr st"
  by (simp_all add: addActivityToAccount_def GetState_def PutState_def Let_def split: option.splits)

lemma settle_bill_ok:
  assumes "\<not> GetErr st lk"
    and "monthDiff (LastSettlementDate (Unmarshal_License (State st lk))) (Now R) = Some m"
  shows "settle_bill R st [lk, ak] =
    (let l = Unmarshal_License (State st lk);
         st1 = snd (addActivityToAccount R st [ak, settled R l m])
     in if PutErr st lk then (Error StubError, st1)
        else (Success, st1\<lparr>State := (State st1)(lk \<mapsto>
                 LicenseObj (l\<lparr>LastSettlementDate := Now R\<rparr>))\<rparr>))"
  using assms
  by (simp add: settle_bill_def GetState_def PutState_def Let_def settled_def
      addActivityToAccount_errs case_prod_beta)


subsection \<open>The small ledger, evaluated\<close>

lemma june_simps:
  "ParseFloat june = ParseFloat_dec" "FormatFloat june = FormatFloat_dec"
  "Float64 june = of_int" "Now june = ''06-01-2024''"
  by (simp_all add: june_def decimal_runtime_def)

lemma sample_stub_simps:
  "GetErr sample_stub k = False" "PutErr sample_stub k = False" "DelErr sample_stub k = False"
  "State sample_stub ''A_B_1'' = Some (AccountObj sample_account)"
  "State sample_stub ''P1_E1'' = Some (LicenseObj sample_license)"
  "State sample_stub ''X_Y_1'' = None"
  by (simp_all add: sample_stub_def empty_stub_def)

lemma parse_samples:
  "ParseFloat_dec ''250'' = (250, True)"
  "ParseFloat_dec ''0E+00'' = (0, True)"
  "ParseFloat_dec ''1E+03'' = (1000, True)"
  "ParseFloat_dec ''1E+01'' = (10, True)"
  "ParseFloat_dec ''1.2E+01'' = (12, True)"
  "ParseFloat_dec ''5E+01'' = (50, True)"
  "ParseFloat_dec [] = (0, False)"
  by code_simp+

lemma format_samples:
  "FormatFloat_dec 250 = ''2.5E+02''"
  "FormatFloat_dec 1250 = ''1.25E+03''"
  "FormatFloat_dec 50 = ''5E+01''"
  "FormatFloat_dec 1050 = ''1.05E+03''"
  "FormatFloat_dec 0 = ''0E+00''"
  by code_simp+

lemma monthDiff_jan_june: "monthDiff ''01-01-2024'' ''06-01-2024'' = Some 5"
  by (simp add: monthDiff_def slice_def ParseInt_def isDigit_def digitsVal_def digitVal_def)

lemma settled_sample: "settled june sample_license 5 = ''5E+01''"
  by (simp add: settled_def support_charge_def sample_license_def june_simps parse_samples
      format_samples)


subsection \<open>C7: posting an amount to an account\<close>

text \<open>
  C7 as stated says that \<^verbatim>\<open>add_activity(accountKey, amount)\<close> fails when no record is
  stored under the account key, and otherwise writes the account back under that key with
  activity and period-to-date balance increased by the amount, changing no other key. On
  the small ledger, posting 250 to \<^verbatim>\<open>A_B_1\<close> succeeds, leaves \<^verbatim>\<open>A_B_1\<close> as it was
  and stores the increased account under the key \<^verbatim>\<open>250\<close>; posting to the absent key
  \<^verbatim>\<open>X_Y_1\<close> succeeds too and stores an account built from the zero value.
\<close>

theorem addActivityToAccount_writes_under_amount:
  "addActivityToAccount june sample_stub [''A_B_1'', ''250''] =
     (Success, sample_stub\<lparr>State := (State sample_stub)(''250'' \<mapsto>
        AccountObj (sample_account\<lparr>Activity := ''2.5E+02'',
                                    PeriodToDateBalance := ''1.25E+03''\<rparr>))\<rparr>)
   \<and> State (snd (addActivityToAccount june sample_stub [''A_B_1'', ''250''])) ''A_B_1''
       = Some (AccountObj sample_account)
   \<and> State sample_stub ''X_Y_1'' = None
   \<and> addActivityToAccount june sample_stub [''X_Y_1'', ''250''] =
     (Success, sample_stub\<lparr>State := (State sample_stub)(''250'' \<mapsto>
        AccountObj (IntercompanyAccount_zero\<lparr>Activity := ''2.5E+02'',
                                              PeriodToDateBalance := ''2.5E+02''\<rparr>))\<rparr>)"
  by (simp add: addActivityToAccount_ok sample_stub_simps posted_def june_simps parse_samples
      format_samples sample_account_def IntercompanyAccount_zero_def)

text \<open>
  C7, amended. \<^verbatim>\<open>addActivityToAccount\<close> with an account key and an amount fails only
  when the stub fails on the read or on the write. Otherwise it succeeds and persists one
  record: the account read under the account key, or the zero account when no account is
  stored there, with the amount added to its activity and to its period-to-date balance;
  a text that is no number counts as the amount that \<^verbatim>\<open>ParseFloat\<close> returns with its
  error. No other key changes.
\<close>

theorem addActivityToAccount_posts:
  "addActivityToAccount R st [k, amount] =
     (if GetErr st k then (Error ''Failed to get the account'', st)
      else if PutErr st amount then (Error StubError, st)
      else (Success, st\<lparr>State := (State st)(amount \<mapsto>
              AccountObj (posted R (Unmarshal_Account (State st k))
                            (fst (ParseFloat R amount))))\<rparr>))"
  by (simp add: addActivityToAccount_def GetState_def PutState_def posted_def Let_def)

subsection \<open>C4: settling the support bill\<close>

text \<open>
  C4 says that \<^verbatim>\<open>settle_bill(licenseKey, accountKey)\<close> posts
  \<open>supportFee * quantity * months / 12\<close> to the account stored under the account key and
  writes the license back with today as its last settlement date. On the small ledger,
  five months after the last settlement, the charge is 50 and the license is written back
  as claimed, but the account \<^verbatim>\<open>A_B_1\<close> stays as it was: the charged account is stored
  under the key \<^verbatim>\<open>5E+01\<close>, the text of the charge.
\<close>

theorem settle_bill_posts_under_charge:
  "monthDiff (LastSettlementDate sample_license) (Now june) = Some 5
   \<and> support_charge june 12 10 5 = 50
   \<and> settle_bill june sample_stub [''P1_E1'', ''A_B_1''] =
     (Success, sample_stub\<lparr>State := (State sample_stub)
        (''5E+01'' \<mapsto> AccountObj (sample_account\<lparr>Activity := ''5E+01'',
                                       PeriodToDateBalance := ''1.05E+03''\<rparr>),
         ''P1_E1'' \<mapsto> LicenseObj (sample_license\<lparr>LastSettlementDate := ''06-01-2024''\<rparr>))\<rparr>)
   \<and> State (snd (settle_bill june sample_stub [''P1_E1'', ''A_B_1''])) ''A_B_1''
       = Some (AccountObj sample_account)"
proof -
  have md: "monthDiff (LastSettlementDate (Unmarshal_License (State sample_stub ''P1_E1'')))
              (Now june) = Some 5"
    by (simp add: sample_stub_simps sample_license_def june_simps monthDiff_jan_june)
  have sc: "support_charge june 12 10 5 = 50"
    by (simp add: support_charge_def june_simps)
  have run: "settle_bill june sample_stub [''P1_E1'', ''A_B_1''] =
     (Success, sample_stub\<lparr>State := (State sample_stub)
        (''5E+01'' \<mapsto> AccountObj (sample_account\<lparr>Activity := ''5E+01'',
                                       PeriodToDateBalance := ''1.05E+03''\<rparr>),
         ''P1_E1'' \<mapsto> LicenseObj (sample_license\<lparr>LastSettlementDate := ''06-01-2024''\<rparr>))\<rparr>)"
    using md
    by (simp add: settle_bill_ok sample_stub_simps settled_sample addActivityToAccount_ok
        posted_def june_simps parse_samples format_samples sample_account_def)
  show ?thesis
    using md sc run by (simp add: sample_stub_simps)
qed

subsection \<open>C6: rolling an account into the next period\<close>










subsection \<open>The create operations as a chain of tests\<close>

lemma create_account_unfold:
  "create_account R st args =
     (if length args \<noteq> 10 then (Error ''Incorrect number of arguments. Expecting 10'', st)
      else if \<not> snd (ParseFloat R (args ! 6)) then (Error ''7th argument must be a numeric string'', st)
      else if \<not> snd (ParseFloat R (args ! 7)) then (Error ''8th argument must be a numeric string'', st)
      else if GetErr st (account_key args) then (Error ''Failed to get account key'', st)
      else if AccountKey (Unmarshal_Account (State st (account_key args))) = account_key args
        then (Error ''This account arleady exists'', st)
      else if PutErr st (account_key args) then (Error StubError, st)
      else if GetErr st AccountIndexStr
        then (Error ''Failed to get user index'',
              st\<lparr>State := (State st)(account_key args \<mapsto> AccountObj (built_account R args))\<rparr>)
      else if PutErr st AccountIndexStr
        then (Success, st\<lparr>State := (State st)(account_key args \<mapsto> AccountObj (built_account R args))\<rparr>)
      else (Success, st\<lparr>State := (State st)
              (account_key args \<mapsto> AccountObj (built_account R args),
               AccountIndexStr \<mapsto> Marshal_Index (append_go (Unmarshal_Index
                  (((State st)(account_key args \<mapsto> AccountObj (built_account R args))) AccountIndexStr))
                  (account_key args)))\<rparr>))"
  by (simp add: create_account_def GetState_def PutState_def Let_def case_prod_beta
      built_account_def account_key_def)

lemma create_license_unfold:
  "create_license R st args =
     (if length args \<noteq> 11 then (Error ''Incorrect number of arguments. Expecting 11'', st)
      else if \<not> snd (ParseFloat R (args ! 2)) then (Error ''3rd argument must be a numeric string'', st)
      else if \<not> snd (ParseFloat R (args ! 3)) then (Error ''4th argument must be a numeric string'', st)
      else if \<not> snd (ParseFloat R (args ! 4)) then (Error ''5th argument must be a numeric string'', st)
      else if GetErr st (license_key args) then (Error ''Failed to get license'', st)
      else if LicenseKey (Unmarshal_License (State st (license_key args))) = license_key args
        then (Error ''This license arleady exists'', st)
      else if PutErr st (license_key args) then (Error StubError, st)
      else if GetErr st LicenseIndexStr
        then (Error ''Failed to get license index'',
              st\<lparr>State := (State st)(license_key args \<mapsto> LicenseObj (built_license R args))\<rparr>)
      else if PutErr st LicenseIndexStr
        then (Success, st\<lparr>State := (State st)(license_key args \<mapsto> LicenseObj (built_license R args))\<rparr>)
      else (Success, st\<lparr>State := (State st)
              (license_key args \<mapsto> LicenseObj (built_license R args),
               LicenseIndexStr \<mapsto> Marshal_Index (append_go (Unmarshal_Index
                  (((State st)(license_key args \<mapsto> LicenseObj (built_license R args))) LicenseIndexStr))
                  (license_key args)))\<rparr>))"
  by (simp add: create_license_def GetState_def PutState_def Let_def case_prod_beta
      built_license_def license_key_def)

lemma parse_samples2:
  "ParseFloat_dec ''11'' = (11, True)"
  "ParseFloat_dec ''1000'' = (1000, True)"
  "ParseFloat_dec ''0'' = (0, True)"
  "ParseFloat_dec ''10'' = (10, True)"
  "ParseFloat_dec ''120'' = (120, True)"
  "ParseFloat_dec ''12'' = (12, True)"
  by code_simp+

lemma format_samples2:
  "FormatFloat_dec 1000 = ''1E+03''"
  "FormatFloat_dec 10 = ''1E+01''"
  "FormatFloat_dec 120 = ''1.2E+02''"
  "FormatFloat_dec 12 = ''1.2E+01''"
  by code_simp+

subsection \<open>C2: a transfer of more than the source holds\<close>

text \<open>
  C2. When the source license is stored under \<^verbatim>\<open>args[0]\<close> with a start date that
  \<open>monthDiff\<close> can read, and the quantity argument parses to a number strictly greater
  than the quantity of the license, \<^verbatim>\<open>transfer_license\<close> returns the error
  \<^verbatim>\<open>No enough license to transfer\<close> and the stub is the one before the call: no key of
  the world state has changed.
\<close>

theorem transfer_license_insufficient:
  assumes "length args = 7"
    and "\<not> GetErr st (args ! 0)"
    and "State st (args ! 0) = Some (LicenseObj l)"
    and "monthDiff (LicenseStartDate l) (Now R) = Some m"
    and "ParseFloat R (args ! 2) = (tq, True)"
    and "fst (ParseFloat R (Quantity l)) < tq"
  shows "transfer_license R st args = (Error ''No enough license to transfer'', st)"
  using assms by (simp add: transfer_license_def GetState_def Let_def)

theorem transfer_license_insufficient_witness:
  "transfer_license june sample_stub [''P1_E1'', ''E2'', ''11'', ''A_B_1'', ''A_B_2'', ''A_B_3'', ''A_B_4'']
     = (Error ''No enough license to transfer'', sample_stub)"
proof -
  have "monthDiff (LicenseStartDate sample_license) (Now june) = Some 5"
    by (simp add: sample_license_def june_simps monthDiff_jan_june)
  moreover have "fst (ParseFloat june (Quantity sample_license)) < 11"
    by (simp add: sample_license_def june_simps parse_samples)
  ultimately show ?thesis
    using transfer_license_insufficient[where R = june and st = sample_stub and l = sample_license
        and args = "[''P1_E1'', ''E2'', ''11'', ''A_B_1'', ''A_B_2'', ''A_B_3'', ''A_B_4'']"
        and tq = 11 and m = 5]
    by (simp add: sample_stub_simps june_simps parse_samples2)
qed

subsection \<open>C10: errors of the create operations\<close>

text \<open>
  C10 as stated says that an error of \<^verbatim>\<open>create_account\<close> or \<^verbatim>\<open>create_license\<close>, a
  store read failure included, means that nothing was put. On a stub whose index cannot be
  read, both operations put the record and then return the error of the failed read.
\<close>

theorem create_error_after_put:
  "create_account june index_unreadable account_args
     = (Error ''Failed to get user index'',
        index_unreadable\<lparr>State := (State index_unreadable)(''A_B_1'' \<mapsto> AccountObj sample_account)\<rparr>)
   \<and> State index_unreadable ''A_B_1'' = None
   \<and> create_license june index_unreadable license_args
     = (Error ''Failed to get license index'',
        index_unreadable\<lparr>State := (State index_unreadable)(''P1_E1'' \<mapsto> LicenseObj sample_license)\<rparr>)
   \<and> State index_unreadable ''P1_E1'' = None"
  by (simp add: create_account_def create_license_def account_args_def license_args_def
      index_unreadable_def empty_stub_def GetState_def PutState_def Let_def june_simps
      parse_samples2 format_samples2 format_samples sample_account_def sample_license_def
      AccountIndexStr_def LicenseIndexStr_def IntercompanyAccount_zero_def License_zero_def)

text \<open>
  C10, amended. Whenever \<^verbatim>\<open>create_account\<close> or \<^verbatim>\<open>create_license\<close> returns an error, either
  the stub is the one before the call, or the error is the failed read of the index and the
  only change is the record put under the derived key. So a wrong argument count, a
  non-numeric amount, a failed read of the derived key, a record already present and a
  failed put of the record all leave every key as it was.
\<close>

theorem create_error_writes:
  "(create_account R st args = (Error e, st') \<longrightarrow>
      st' = st \<or> (e = ''Failed to get user index''
         \<and> st' = st\<lparr>State := (State st)(account_key args \<mapsto> AccountObj (built_account R args))\<rparr>))
   \<and> (create_license R st args = (Error e, st') \<longrightarrow>
      st' = st \<or> (e = ''Failed to get license index''
         \<and> st' = st\<lparr>State := (State st)(license_key args \<mapsto> LicenseObj (built_license R args))\<rparr>))"
  by (simp add: create_account_unfold create_license_unfold split: if_splits)

theorem create_error_writes_witness:
  "create_account june sample_stub account_args = (Error ''This account arleady exists'', sample_stub)
   \<and> create_license june sample_stub [''P1'', ''E1'', ''ten''] 
        = (Error ''Incorrect number of arguments. Expecting 11'', sample_stub)"
proof -
  have a: "create_account june sample_stub account_args = (Error ''This account arleady exists'', sample_stub)"
    by (simp add: create_account_def account_args_def GetState_def Let_def june_simps
        parse_samples2 sample_stub_simps sample_account_def)
  have b: "create_license june sample_stub [''P1'', ''E1'', ''ten'']
        = (Error ''Incorrect number of arguments. Expecting 11'', sample_stub)"
    by (simp add: create_license_def)
  from create_error_writes[of june sample_stub account_args "''This account arleady exists''" sample_stub]
    a b show ?thesis by simp
qed

subsection \<open>C5: settling twice in the same month\<close>

lemma monthDiff_empty: "monthDiff [] d = None"
  by (simp add: monthDiff_def slice_def)

lemma stored_license:
  assumes "monthDiff (LastSettlementDate (Unmarshal_License v)) d = Some m"
  shows "\<exists>l. v = Some (LicenseObj l)"
proof (cases v)
  case None
  with assms show ?thesis by (simp add: License_zero_def monthDiff_empty)
next
  case (Some j)
  with assms show ?thesis
    by (cases j) (simp_all add: License_zero_def monthDiff_empty)
qed

lemma support_charge_zero:
  fixes R :: "('f::semidom_divide) runtime"
  assumes "Float64 R 0 = 0"
  shows "support_charge R fee qty 0 = 0"
  using assms by (simp add: support_charge_def)

lemma addActivityToAccount_state:
  "State (snd (addActivityToAccount R st [k, amt])) =
     (if GetErr st k \<or> PutErr st amt then State st
      else (State st)(amt \<mapsto> AccountObj (posted R (Unmarshal_Account (State st k)) (fst (ParseFloat R amt)))))"
  by (simp add: addActivityToAccount_def GetState_def PutState_def posted_def Let_def)

lemma monthDiff_same_day:
  assumes "monthDiff d today = Some m"
  shows "monthDiff today today = Some 0"
  using assms by (auto simp: monthDiff_def Let_def split: option.splits)

lemma settle_bill_then_same_day:
  assumes "settle_bill R st [lk, ak] = (Success, st1)"
  shows "monthDiff (LastSettlementDate (Unmarshal_License (State st1 lk))) (Now R) = Some 0"
proof -
  from assms have g: "\<not> GetErr st lk"
    by (auto simp: settle_bill_def GetState_def split: if_splits)
  from assms g obtain m where
    m: "monthDiff (LastSettlementDate (Unmarshal_License (State st lk))) (Now R) = Some m"
    by (cases "monthDiff (LastSettlementDate (Unmarshal_License (State st lk))) (Now R)")
       (auto simp: settle_bill_def GetState_def Let_def)
  from assms settle_bill_ok[OF g m, of ak]
  have "State st1 lk = Some (LicenseObj
          ((Unmarshal_License (State st lk))\<lparr>LastSettlementDate := Now R\<rparr>))"
    by (auto simp: Let_def split: if_splits)
  then show ?thesis using monthDiff_same_day[OF m] by simp
qed

lemma january_simps:
  "ParseFloat january = ParseFloat_dec" "FormatFloat january = FormatFloat_dec"
  "Float64 january = of_int" "Now january = ''01-15-2024''"
  by (simp_all add: january_def decimal_runtime_def)

lemma monthDiff_january: "monthDiff ''01-01-2024'' ''01-15-2024'' = Some 0"
  by (simp add: monthDiff_def slice_def ParseInt_def isDigit_def digitsVal_def digitVal_def)

text \<open>
  C5. In exact arithmetic (a type with the laws of a domain with division, the integer 0
  converted to the amount 0), when the month difference between the last settlement date
  of the stored license and today is 0, the support charge that \<^verbatim>\<open>settle_bill\<close> computes
  is 0, and after the call the account stored under the account key has the activity and
  the period-to-date balance it had before, as numbers. The amounts of the account are
  taken to survive formatting and parsing. (After a successful \<^verbatim>\<open>settle_bill\<close> the month
  difference is 0 for the rest of the day: lemma \<open>settle_bill_then_same_day\<close>.)
\<close>

theorem settle_bill_same_month:
  fixes R :: "('f::semidom_divide) runtime"
  assumes md: "monthDiff (LastSettlementDate (Unmarshal_License (State st lk))) (Now R) = Some 0"
    and z: "Float64 R 0 = 0"
    and rt0: "fst (ParseFloat R (FormatFloat R 0)) = 0"
    and a: "a = Unmarshal_Account (State st ak)"
    and rta: "fst (ParseFloat R (FormatFloat R (fst (ParseFloat R (Activity a)))))
               = fst (ParseFloat R (Activity a))"
    and rtb: "fst (ParseFloat R (FormatFloat R (fst (ParseFloat R (PeriodToDateBalance a)))))
               = fst (ParseFloat R (PeriodToDateBalance a))"
    and st': "st' = snd (settle_bill R st [lk, ak])"
  shows "support_charge R (fst (ParseFloat R (SupportFee (Unmarshal_License (State st lk)))))
            (fst (ParseFloat R (Quantity (Unmarshal_License (State st lk))))) 0 = 0
       \<and> fst (ParseFloat R (Activity (Unmarshal_Account (State st' ak))))
           = fst (ParseFloat R (Activity a))
       \<and> fst (ParseFloat R (PeriodToDateBalance (Unmarshal_Account (State st' ak))))
           = fst (ParseFloat R (PeriodToDateBalance a))"
proof -
  obtain l where l: "State st lk = Some (LicenseObj l)"
    using stored_license[OF md] by blast
  have c0: "settled R (Unmarshal_License (State st lk)) 0 = FormatFloat R 0"
    by (simp add: settled_def support_charge_zero[OF z])
  show ?thesis
  proof (cases "GetErr st lk")
    case True
    then have "st' = st" by (simp add: st' settle_bill_def GetState_def)
    then show ?thesis using a by (simp add: support_charge_zero[OF z])
  next
    case False
    note run = settle_bill_ok[OF False md, of ak]
    show ?thesis
    proof (cases "ak = lk")
      case True
      then show ?thesis
        using run l a c0
        by (simp add: st' Let_def addActivityToAccount_state support_charge_zero[OF z]
            IntercompanyAccount_zero_def posted_def rt0)
    next
      case False
      then show ?thesis
        using run l a c0 rta rtb
        by (cases "ak = FormatFloat R 0")
           (simp_all add: st' Let_def addActivityToAccount_state support_charge_zero[OF z]
            posted_def rt0)
    qed
  qed
qed


theorem settle_bill_same_month_witness:
  "monthDiff (LastSettlementDate (Unmarshal_License (State sample_stub ''P1_E1''))) (Now january) = Some 0
   \<and> support_charge january 12 10 0 = 0
   \<and> fst (ParseFloat january (Activity (Unmarshal_Account
        (State (snd (settle_bill january sample_stub [''P1_E1'', ''A_B_1''])) ''A_B_1'')))) = 0
   \<and> fst (ParseFloat january (PeriodToDateBalance (Unmarshal_Account
        (State (snd (settle_bill january sample_stub [''P1_E1'', ''A_B_1''])) ''A_B_1'')))) = 1000"
proof -
  have md: "monthDiff (LastSettlementDate (Unmarshal_License (State sample_stub ''P1_E1'')))
              (Now january) = Some 0"
    by (simp add: sample_stub_simps sample_license_def january_simps monthDiff_january)
  have z: "Float64 january 0 = 0" by (simp add: january_simps)
  have rt0: "fst (ParseFloat january (FormatFloat january 0)) = 0"
    by (simp add: january_simps format_samples parse_samples)
  have rta: "fst (ParseFloat january (FormatFloat january (fst (ParseFloat january (Activity sample_account)))))
               = fst (ParseFloat january (Activity sample_account))"
    by (simp add: january_simps sample_account_def format_samples parse_samples)
  have rtb: "fst (ParseFloat january (FormatFloat january (fst (ParseFloat january (PeriodToDateBalance sample_account)))))
               = fst (ParseFloat january (PeriodToDateBalance sample_account))"
    by (simp add: january_simps sample_account_def format_samples2 parse_samples)
  have a: "sample_account = Unmarshal_Account (State sample_stub ''A_B_1'')"
    by (simp add: sample_stub_simps)
  from settle_bill_same_month[OF md z rt0 a rta rtb refl] md
  show ?thesis
    by (simp add: sample_stub_simps sample_license_def sample_account_def january_simps parse_samples)
qed

subsection \<open>C1: the balance of an account\<close>







lemma posted_balanced:
  fixes R :: "('f::ab_semigroup_add) runtime"
  assumes "balanced R a"
    and "fst (ParseFloat R (FormatFloat R (fst (ParseFloat R (Activity a)) + x)))
           = fst (ParseFloat R (Activity a)) + x"
    and "fst (ParseFloat R (FormatFloat R (fst (ParseFloat R (PeriodToDateBalance a)) + x)))
           = fst (ParseFloat R (PeriodToDateBalance a)) + x"
  shows "balanced R (posted R a x)"
  using assms by (simp add: balanced_def posted_def add.assoc)






subsection \<open>C3: a transfer of the whole quantity\<close>

lemma writes_objects_refl: "writes_objects st st"
  by (simp add: writes_objects_def)

lemma writes_objects_trans:
  assumes "writes_objects st st1" and "writes_objects st1 st2"
  shows "writes_objects st st2"
  unfolding writes_objects_def
proof (intro conjI allI)
  fix x
  from assms(2) have "State st2 x = State st1 x \<or> (\<exists>a. State st2 x = Some (AccountObj a))
             \<or> (\<exists>l. State st2 x = Some (LicenseObj l))"
    by (simp add: writes_objects_def)
  moreover from assms(1) have "State st1 x = State st x \<or> (\<exists>a. State st1 x = Some (AccountObj a))
             \<or> (\<exists>l. State st1 x = Some (LicenseObj l))"
    by (simp add: writes_objects_def)
  ultimately show "State st2 x = State st x \<or> (\<exists>a. State st2 x = Some (AccountObj a))
             \<or> (\<exists>l. State st2 x = Some (LicenseObj l))"
    by auto
qed (use assms in \<open>simp_all add: writes_objects_def\<close>)

lemma writes_objects_put_account:
  "writes_objects st (snd (PutState st k (AccountObj a)))"
  by (simp add: writes_objects_def PutState_def)

lemma writes_objects_put_license:
  "writes_objects st (snd (PutState st k (LicenseObj l)))"
  by (simp add: writes_objects_def PutState_def)

lemma writes_objects_addActivity:
  "writes_objects st (snd (addActivityToAccount R st args))"
  by (simp add: addActivityToAccount_def GetState_def Let_def case_prod_beta
      writes_objects_put_account writes_objects_refl split: option.splits)

lemma writes_objects_settle_bill:
  "writes_objects st (snd (settle_bill R st args))"
proof -
  have "writes_objects st (snd (PutState (snd (addActivityToAccount R st xs)) k (LicenseObj l)))"
    for xs k l
    using writes_objects_trans[OF writes_objects_addActivity writes_objects_put_license] .
  then show ?thesis
    by (simp add: settle_bill_def GetState_def Let_def case_prod_beta
      writes_objects_refl split: option.splits)
qed

lemma listed_once_writes_objects:
  assumes "listed_once k st" and "writes_objects st st'"
  shows "listed_once k st'"
  unfolding listed_once_def
proof (intro allI impI)
  fix xs assume a: "State st' LicenseIndexStr = Some (Arr xs)"
  from assms(2) have "State st' LicenseIndexStr = State st LicenseIndexStr
      \<or> (\<exists>a. State st' LicenseIndexStr = Some (AccountObj a))
      \<or> (\<exists>l. State st' LicenseIndexStr = Some (LicenseObj l))"
    by (simp add: writes_objects_def)
  with a have "State st LicenseIndexStr = Some (Arr xs)" by auto
  with assms(1) show "count_list xs k \<le> 1" by (simp add: listed_once_def)
qed

lemma create_license_errs:
  "GetErr (snd (create_license R st args)) = GetErr st"
  "PutErr (snd (create_license R st args)) = PutErr st"
  "DelErr (snd (create_license R st args)) = DelErr st"
  by (simp_all add: create_license_unfold)

lemma listed_once_create_license:
  assumes "listed_once k st" and "length args = 11 \<longrightarrow> license_key args \<noteq> k"
  shows "listed_once k (snd (create_license R st args))"
proof (cases "length args = 11")
  case False
  with assms show ?thesis by (simp add: create_license_unfold)
next
  case True
  with assms have ne: "license_key args \<noteq> k" by simp
  have app: "count_list xs k \<le> 1"
    if "Marshal_Index (append_go (Unmarshal_Index v) (license_key args)) = Arr xs"
       and "\<forall>ys. v = Some (Arr ys) \<longrightarrow> count_list ys k \<le> 1" for v xs
  proof (cases "Unmarshal_Index v")
    case None
    with that ne show ?thesis by auto
  next
    case (Some ys)
    then have "v = Some (Arr ys)"
      by (cases v rule: Unmarshal_Index.cases) simp_all
    with that Some ne show ?thesis by auto
  qed
  show ?thesis
    unfolding listed_once_def
  proof (intro allI impI)
    fix xs assume a: "State (snd (create_license R st args)) LicenseIndexStr = Some (Arr xs)"
    show "count_list xs k \<le> 1"
    proof (cases "State (snd (create_license R st args)) LicenseIndexStr = State st LicenseIndexStr")
      case True
      with a assms(1) show ?thesis by (simp add: listed_once_def)
    next
      case False
      with a have "Marshal_Index (append_go (Unmarshal_Index
          (((State st)(license_key args \<mapsto> LicenseObj (built_license R args))) LicenseIndexStr))
             (license_key args)) = Arr xs"
        by (auto simp: create_license_unfold split: if_splits)
      moreover have "\<forall>ys. ((State st)(license_key args \<mapsto> LicenseObj (built_license R args))) LicenseIndexStr
              = Some (Arr ys) \<longrightarrow> count_list ys k \<le> 1"
        using assms(1) by (auto simp: listed_once_def)
      ultimately show ?thesis by (rule app)
    qed
  qed
qed


lemma writes_objects_errs:
  assumes "writes_objects st st'"
  shows "GetErr st' = GetErr st" "PutErr st' = PutErr st" "DelErr st' = DelErr st"
  using assms by (simp_all add: writes_objects_def)

lemma transfer_target_listed_once:
  assumes once: "listed_once k st"
    and fresh: "LicenseKey resLicenseB \<noteq> newLicenseKey \<longrightarrow>
                  LicensePartNo resLicenseA @ ''_'' @ args ! 1 \<noteq> k"
  shows "listed_once k (snd (transfer_target R st args resLicenseA resLicenseB newLicenseKey tq now c nc))
       \<and> same_errs st (snd (transfer_target R st args resLicenseA resLicenseB newLicenseKey tq now c nc))"
proof (cases "LicenseKey resLicenseB = newLicenseKey")
  case True
  let ?s0 = "snd (settle_bill R st [newLicenseKey, args ! 6])"
  have w0: "writes_objects st ?s0" by (rule writes_objects_settle_bill)
  have w1: "writes_objects st (snd (PutState ?s0 x (LicenseObj l)))" for x l
    using writes_objects_trans[OF w0 writes_objects_put_license] .
  have w2: "writes_objects st (snd (addActivityToAccount R (snd (PutState ?s0 x (LicenseObj l))) xs))"
    for x l xs
    using writes_objects_trans[OF w1 writes_objects_addActivity] .
  have w3: "writes_objects st (snd (addActivityToAccount R
       (snd (addActivityToAccount R (snd (PutState ?s0 x (LicenseObj l))) xs)) ys))"
    for x l xs ys
    using writes_objects_trans[OF w2 writes_objects_addActivity] .
  have "writes_objects st
     (snd (transfer_target R st args resLicenseA resLicenseB newLicenseKey tq now c nc))"
    using True w0 w1 w3
    by (simp add: transfer_target_def Let_def case_prod_beta)
  then show ?thesis
    using once by (simp add: listed_once_writes_objects same_errs_def writes_objects_errs)
next
  case False
  let ?args2 = "[LicensePartNo resLicenseA, args ! 1, args ! 2,
                        LicensePrice resLicenseA, SupportFee resLicenseA,
                        LicenseStartDate resLicenseA, LicenseEndDate resLicenseA,
                        SupportStartDate resLicenseA, SupportEndDate resLicenseA,
                        License.Currency resLicenseA, now]"
  let ?s1 = "snd (create_license R st ?args2)"
  have k: "license_key ?args2 \<noteq> k" using False fresh by (simp add: license_key_def)
  have o1: "listed_once k ?s1" using once k by (simp add: listed_once_create_license)
  have w: "writes_objects ?s1 (snd (addActivityToAccount R (snd (addActivityToAccount R ?s1 xs)) ys))"
    for xs ys
    using writes_objects_trans[OF writes_objects_addActivity writes_objects_addActivity] .
  have eq: "snd (transfer_target R st args resLicenseA resLicenseB newLicenseKey tq now c nc)
      = snd (addActivityToAccount R (snd (addActivityToAccount R ?s1 [args ! 3, c])) [args ! 4, nc])"
    using False by (simp add: transfer_target_def Let_def case_prod_beta)
  show ?thesis
    unfolding eq using listed_once_writes_objects[OF o1 w] writes_objects_errs[OF w]
    by (simp add: same_errs_def create_license_errs)
qed

lemma transfer_target_early:
  "fst (transfer_target R st args A B newKey tq now c nc) \<noteq> Some Success"
  by (simp add: transfer_target_def Let_def case_prod_beta)

lemma transfer_license_Success:
  assumes "transfer_license R st args = (Success, st')"
  shows "\<exists>c nc. fst (transfer_target R st args (Unmarshal_License (State st (args ! 0)))
            (Unmarshal_License (State st (LicensePartNo (Unmarshal_License (State st (args ! 0))) @ ''_'' @ args ! 1)))
            (LicensePartNo (Unmarshal_License (State st (args ! 0))) @ ''_'' @ args ! 1)
            (fst (ParseFloat R (args ! 2))) (Now R) c nc) = None
        \<and> transfer_source R (snd (transfer_target R st args (Unmarshal_License (State st (args ! 0)))
            (Unmarshal_License (State st (LicensePartNo (Unmarshal_License (State st (args ! 0))) @ ''_'' @ args ! 1)))
            (LicensePartNo (Unmarshal_License (State st (args ! 0))) @ ''_'' @ args ! 1)
            (fst (ParseFloat R (args ! 2))) (Now R) c nc))
          args (Unmarshal_License (State st (args ! 0)))
          (fst (ParseFloat R (Quantity (Unmarshal_License (State st (args ! 0))))))
          (fst (ParseFloat R (args ! 2))) (Now R) = (Success, st')"
proof -
  from assms obtain m where m: "monthDiff (LicenseStartDate (Unmarshal_License (State st (args ! 0)))) (Now R) = Some m"
    by (cases "monthDiff (LicenseStartDate (Unmarshal_License (State st (args ! 0)))) (Now R)")
       (auto simp: transfer_license_def GetState_def Let_def split: if_splits)
  let ?c = "FormatFloat R (fst (ParseFloat R (args ! 2)) * Float64 R m *
              fst (ParseFloat R (LicensePrice (Unmarshal_License (State st (args ! 0))))) div Float64 R 60)"
  let ?nc = "FormatFloat R (- (fst (ParseFloat R (args ! 2)) * Float64 R m *
              fst (ParseFloat R (LicensePrice (Unmarshal_License (State st (args ! 0))))) div Float64 R 60))"
  let ?tt = "transfer_target R st args (Unmarshal_License (State st (args ! 0)))
            (Unmarshal_License (State st (LicensePartNo (Unmarshal_License (State st (args ! 0))) @ ''_'' @ args ! 1)))
            (LicensePartNo (Unmarshal_License (State st (args ! 0))) @ ''_'' @ args ! 1)
            (fst (ParseFloat R (args ! 2))) (Now R) ?c ?nc"
  have ne: "fst ?tt \<noteq> Some Success" by (rule transfer_target_early)
  from assms m ne have "fst ?tt = None
        \<and> transfer_source R (snd ?tt)
          args (Unmarshal_License (State st (args ! 0)))
          (fst (ParseFloat R (Quantity (Unmarshal_License (State st (args ! 0))))))
          (fst (ParseFloat R (args ! 2))) (Now R) = (Success, st')"
    by (cases "fst ?tt")
       (auto simp: transfer_license_def GetState_def Let_def case_prod_beta split: if_splits)
  then show ?thesis by blast
qed


lemma remove_first_absent: "count_list ys k \<le> 1 \<Longrightarrow> k \<notin> set (remove_first k ys)"
proof (induction ys)
  case Nil
  then show ?case by simp
next
  case (Cons y ys)
  show ?case
  proof (cases "y = k")
    case True
    with Cons.prems have "count_list ys k = 0" by simp
    then have "k \<notin> set ys" by (simp add: count_list_0_iff)
    with True show ?thesis by simp
  next
    case False
    with Cons show ?thesis by simp
  qed
qed

lemma delete_license_ok:
  assumes "\<not> DelErr st k" and "\<not> GetErr st LicenseIndexStr" and "\<not> PutErr st LicenseIndexStr"
  shows "delete_license st [k] =
     (Success, st\<lparr>State := (State st)(k := None, LicenseIndexStr \<mapsto>
        Marshal_Index (map_option (remove_first k)
          (Unmarshal_Index (((State st)(k := None)) LicenseIndexStr))))\<rparr>)"
  using assms by (simp add: delete_license_def DelState_def GetState_def PutState_def Let_def)

lemma sample_stub_more:
  "State sample_stub ''P1_E2'' = None"
  "State sample_stub LicenseIndexStr = Some (Arr [''P1_E1''])"
  "State sample_stub ''_licenseindex'' = Some (Arr [''P1_E1''])"
  by (simp_all add: sample_stub_def empty_stub_def LicenseIndexStr_def)

lemma format_samples3:
  "FormatFloat_dec 100 = ''1E+02''"
  "FormatFloat_dec (- 100) = ''-1E+02''"
  by code_simp+

lemma parse_samples3:
  "ParseFloat_dec ''1.2E+02'' = (120, True)"
  by code_simp+

lemma transfer_sample:
  "transfer_license june sample_stub transfer_args
     = (Success, snd (transfer_license june sample_stub transfer_args))"
proof -
  have "fst (transfer_license june sample_stub transfer_args) = Success"
    by (simp add: transfer_license_def transfer_args_def GetState_def sample_stub_simps
        sample_stub_more Let_def case_prod_beta sample_license_def june_simps monthDiff_jan_june
        parse_samples parse_samples2 parse_samples3 format_samples3
        transfer_target_def transfer_source_def License_zero_def
        create_license_unfold license_key_def LicenseIndexStr_def addActivityToAccount_state
        addActivityToAccount_errs settle_bill_def delete_license_def)
  then show ?thesis by (simp add: prod_eq_iff)
qed


lemma transfer_sample_index:
  "State (snd (transfer_license june sample_stub transfer_args)) LicenseIndexStr
     = Some (Arr [''P1_E2''])"
  by (simp add: transfer_license_def transfer_args_def GetState_def sample_stub_simps
        sample_stub_more Let_def case_prod_beta sample_license_def june_simps monthDiff_jan_june
        parse_samples parse_samples2 parse_samples3 format_samples3
        transfer_target_def transfer_source_def License_zero_def
        create_license_unfold license_key_def LicenseIndexStr_def addActivityToAccount_state
        addActivityToAccount_errs settle_bill_def delete_license_def PutState_def DelState_def
        StubError_def support_charge_def format_samples)

text \<open>
  C3. Let the source license be stored under \<^verbatim>\<open>args[0]\<close>, its own \<^verbatim>\<open>licenseKey\<close>, a
  key other than the index key and listed at most once in \<^verbatim>\<open>_licenseindex\<close>, and let the
  stub not fail on the delete of that key nor on the read and the write of the index.
  When \<^verbatim>\<open>transfer_license\<close> succeeds with a quantity equal to the quantity of the source
  license, the source key holds no record afterwards and does not occur in the index.
\<close>

theorem transfer_license_whole:
  assumes ok: "transfer_license R st args = (Success, st')"
    and lic: "State st (args ! 0) = Some (LicenseObj l)"
    and key: "LicenseKey l = args ! 0"
    and whole: "fst (ParseFloat R (args ! 2)) = fst (ParseFloat R (Quantity l))"
    and notidx: "args ! 0 \<noteq> LicenseIndexStr"
    and once: "\<forall>xs. State st LicenseIndexStr = Some (Arr xs) \<longrightarrow> count_list xs (args ! 0) \<le> 1"
    and del: "\<not> DelErr st (args ! 0)"
    and get: "\<not> GetErr st LicenseIndexStr"
    and put: "\<not> PutErr st LicenseIndexStr"
  shows "State st' (args ! 0) = None
       \<and> (\<forall>xs. State st' LicenseIndexStr = Some (Arr xs) \<longrightarrow> args ! 0 \<notin> set xs)"
proof -
  let ?k = "args ! 0"
  let ?newKey = "LicensePartNo l @ ''_'' @ args ! 1"
  let ?B = "Unmarshal_License (State st ?newKey)"
  from transfer_license_Success[OF ok] lic obtain c nc where
    src: "transfer_source R (snd (transfer_target R st args l ?B ?newKey
            (fst (ParseFloat R (args ! 2))) (Now R) c nc))
          args l (fst (ParseFloat R (Quantity l))) (fst (ParseFloat R (args ! 2))) (Now R)
            = (Success, st')"
    by auto
  let ?st1 = "snd (transfer_target R st args l ?B ?newKey (fst (ParseFloat R (args ! 2))) (Now R) c nc)"
  let ?st2 = "snd (settle_bill R ?st1 [?k, args ! 5])"
  have fresh: "LicenseKey ?B \<noteq> ?newKey \<longrightarrow> ?newKey \<noteq> ?k"
    using lic key by auto
  have o0: "listed_once ?k st" using once by (simp add: listed_once_def)
  note tt = transfer_target_listed_once[OF o0 fresh, where R = R and c = c and nc = nc
      and tq = "fst (ParseFloat R (args ! 2))" and now = "Now R"]
  have o1: "listed_once ?k ?st1" using tt by (rule conjunct1)
  have e1: "same_errs st ?st1" using tt by (rule conjunct2)
  have w2: "writes_objects ?st1 ?st2" by (rule writes_objects_settle_bill)
  have o2: "listed_once ?k ?st2" using listed_once_writes_objects[OF o1 w2] .
  have e2: "\<not> DelErr ?st2 ?k" "\<not> GetErr ?st2 LicenseIndexStr" "\<not> PutErr ?st2 LicenseIndexStr"
    using e1 writes_objects_errs[OF w2] del get put by (simp_all add: same_errs_def)
  from src whole have st': "st' = snd (delete_license ?st2 [?k])"
    by (auto simp: transfer_source_def Let_def case_prod_beta split: if_splits)
  have final: "State st' = (State ?st2)(?k := None, LicenseIndexStr \<mapsto>
        Marshal_Index (map_option (remove_first ?k)
          (Unmarshal_Index (((State ?st2)(?k := None)) LicenseIndexStr))))"
    unfolding st' using delete_license_ok[OF e2] by simp
  have gone: "State st' ?k = None" using final notidx by simp
  have idx: "?k \<notin> set xs" if a: "State st' LicenseIndexStr = Some (Arr xs)" for xs
  proof -
    from a final notidx
    have m: "Marshal_Index (map_option (remove_first ?k) (Unmarshal_Index (State ?st2 LicenseIndexStr)))
             = Arr xs"
      by (simp add: fun_upd_other)
    then obtain ys where ys: "Unmarshal_Index (State ?st2 LicenseIndexStr) = Some ys"
        and xs: "xs = remove_first ?k ys"
      by (cases "Unmarshal_Index (State ?st2 LicenseIndexStr)") auto
    from ys have "State ?st2 LicenseIndexStr = Some (Arr ys)"
      by (cases "State ?st2 LicenseIndexStr" rule: Unmarshal_Index.cases) simp_all
    with o2 have "count_list ys ?k \<le> 1" by (simp add: listed_once_def)
    then show ?thesis unfolding xs by (rule remove_first_absent)
  qed
  from gone idx show ?thesis by blast
qed

theorem transfer_license_whole_witness:
  "fst (transfer_license june sample_stub transfer_args) = Success
   \<and> State sample_stub ''P1_E1'' = Some (LicenseObj sample_license)
   \<and> State (snd (transfer_license june sample_stub transfer_args)) ''P1_E1'' = None
   \<and> State (snd (transfer_license june sample_stub transfer_args)) LicenseIndexStr
        = Some (Arr [''P1_E2''])"
proof -
  have lic: "State sample_stub (transfer_args ! 0) = Some (LicenseObj sample_license)"
    by (simp add: transfer_args_def sample_stub_simps)
  have key: "LicenseKey sample_license = transfer_args ! 0"
    by (simp add: transfer_args_def sample_license_def)
  have whole: "fst (ParseFloat june (transfer_args ! 2)) = fst (ParseFloat june (Quantity sample_license))"
    by (simp add: transfer_args_def sample_license_def june_simps parse_samples parse_samples2)
  have notidx: "transfer_args ! 0 \<noteq> LicenseIndexStr"
    by (simp add: transfer_args_def LicenseIndexStr_def)
  have once: "\<forall>xs. State sample_stub LicenseIndexStr = Some (Arr xs)
                 \<longrightarrow> count_list xs (transfer_args ! 0) \<le> 1"
    by (simp add: sample_stub_more transfer_args_def)
  have errs: "\<not> DelErr sample_stub (transfer_args ! 0)" "\<not> GetErr sample_stub LicenseIndexStr"
      "\<not> PutErr sample_stub LicenseIndexStr"
    by (simp_all add: sample_stub_simps)
  from transfer_license_whole[OF transfer_sample lic key whole notidx once errs]
  have "State (snd (transfer_license june sample_stub transfer_args)) (transfer_args ! 0) = None"
    by (rule conjunct1)
  moreover have "fst (transfer_license june sample_stub transfer_args) = Success"
    using transfer_sample by (metis fst_conv)
  ultimately show ?thesis
    using transfer_sample_index
    by (simp add: transfer_args_def sample_stub_simps)
qed

subsection \<open>C9: the two index lists\<close>


















lemma reset_eq:
  "reset = empty_stub\<lparr>State := [''test_key'' \<mapsto> Other ''1'', LicenseIndexStr \<mapsto> Null,
      AccountIndexStr \<mapsto> Null]\<rparr>"
proof -
  have "ParseInt ''1'' = (1, True)"
    by (simp add: ParseInt_def isDigit_def digitsVal_def digitVal_def)
  moreover have "FormatInt 1 = ''1''" by code_simp
  ultimately show ?thesis
    by (simp add: reset_def Init_def PutState_def empty_stub_def Let_def)
qed


lemma built_samples:
  "built_account june account_args = sample_account"
  "built_license june license_args = sample_license"
  "account_key account_args = ''A_B_1''"
  "license_key license_args = ''P1_E1''"
  by (simp_all add: built_account_def built_license_def account_key_def license_key_def
      account_args_def license_args_def sample_account_def sample_license_def june_simps
      parse_samples2 format_samples format_samples2)

lemma reset_simps:
  "GetErr reset k = False" "PutErr reset k = False" "DelErr reset k = False"
  "State reset ''A_B_1'' = None" "State reset ''P1_E1'' = None"
  "State reset ''_accountindex'' = Some Null" "State reset ''_licenseindex'' = Some Null"
  by (simp_all add: reset_eq empty_stub_def LicenseIndexStr_def AccountIndexStr_def)

lemma account_args_simps:
  "length account_args = 10" "snd (ParseFloat june (account_args ! 6))"
  "snd (ParseFloat june (account_args ! 7))"
  by (simp_all add: account_args_def june_simps parse_samples2)

lemma create_account_errs:
  "GetErr (snd (create_account R st args)) = GetErr st"
  "PutErr (snd (create_account R st args)) = PutErr st"
  "DelErr (snd (create_account R st args)) = DelErr st"
  by (simp_all add: create_account_unfold)


lemma account_created_simps:
  "fst (create_account june reset account_args) = Success"
  "GetErr account_created k = False" "PutErr account_created k = False"
  "DelErr account_created k = False"
  "State account_created ''A_B_1'' = Some (AccountObj sample_account)"
  "State account_created ''_accountindex'' = Some (Arr [''A_B_1''])"
  "State account_created ''_licenseindex'' = Some Null"
  "State account_created ''P1_E1'' = None"
  by (simp_all add: account_created_def create_account_errs reset_simps)
     (simp_all add: create_account_unfold account_args_simps built_samples reset_simps
        IntercompanyAccount_zero_def AccountIndexStr_def)






lemma license_args_simps:
  "length license_args = 11" "snd (ParseFloat june (license_args ! 2))"
  "snd (ParseFloat june (license_args ! 3))" "snd (ParseFloat june (license_args ! 4))"
  by (simp_all add: license_args_def june_simps parse_samples2)

lemma license_created_simps:
  "fst (create_license june account_created license_args) = Success"
  "GetErr license_created k = False" "PutErr license_created k = False"
  "DelErr license_created k = False"
  "State license_created ''P1_E1'' = Some (LicenseObj sample_license)"
  "State license_created ''_licenseindex'' = Some (Arr [''P1_E1''])"
  "State license_created ''_accountindex'' = Some (Arr [''A_B_1''])"
  by (simp_all add: license_created_def create_license_errs account_created_simps)
     (simp_all add: create_license_unfold license_args_simps built_samples account_created_simps
        License_zero_def LicenseIndexStr_def AccountIndexStr_def)





subsection \<open>The small ledger is reachable\<close>

text \<open>
  \<^verbatim>\<open>Init\<close> on the empty stub, \<^verbatim>\<open>create_account\<close> and \<^verbatim>\<open>create_license\<close> with the
  arguments of the scenario succeed and end in the stub of the small ledger.
\<close>

lemma sample_stub_reached:
  "fst (create_account june reset account_args) = Success"
  "fst (create_license june account_created license_args) = Success"
  "license_created = sample_stub"
proof -
  show "fst (create_account june reset account_args) = Success"
    by (rule account_created_simps(1))
  show "fst (create_license june account_created license_args) = Success"
    by (rule license_created_simps(1))
  have ac: "account_created = reset\<lparr>State := (State reset)(''A_B_1'' \<mapsto> AccountObj sample_account,
               ''_accountindex'' \<mapsto> Arr [''A_B_1''])\<rparr>"
    unfolding account_created_def
    by (simp add: create_account_unfold account_args_simps built_samples reset_simps
        IntercompanyAccount_zero_def AccountIndexStr_def)
  have lc: "license_created = account_created\<lparr>State := (State account_created)
              (''P1_E1'' \<mapsto> LicenseObj sample_license, ''_licenseindex'' \<mapsto> Arr [''P1_E1''])\<rparr>"
    unfolding license_created_def
    by (simp add: create_license_unfold license_args_simps built_samples account_created_simps
        License_zero_def LicenseIndexStr_def)
  show "license_created = sample_stub"
    unfolding lc ac reset_eq sample_stub_def
    by (auto simp: fun_eq_iff LicenseIndexStr_def AccountIndexStr_def empty_stub_def)
qed

end
